theory Spec2Isabelle
  imports Complex_Main "HOL-Library.Signed_Division"
begin

section \<open>Scalars\<close>

text \<open>
  The C++ type \<^verbatim>\<open>double\<close>. A value is either a real number or \<open>NaN\<close>. Arithmetic on
  real numbers is exact: rounding and overflow are not modelled, and underflow only
  for the result of the exponential function. \<open>NaN\<close> is what IEEE arithmetic gives where no real
  number is the result (\<^verbatim>\<open>0.0/0.0\<close>); it is absorbing, and \<^verbatim>\<open>NaN != c\<close> is true for
  every \<open>c\<close>. The quotient of a non-zero number by zero (an IEEE infinity) is not a
  real number either and is \<open>NaN\<close> here.
\<close>

datatype double = Fin real | NaN

instantiation double :: "{comm_monoid_add,comm_monoid_mult,numeral,minus,uminus,inverse}"
begin

definition zero_double :: double where
  "zero_double = Fin 0"

definition one_double :: double where
  "one_double = Fin 1"

fun plus_double :: "double \<Rightarrow> double \<Rightarrow> double" where
  "plus_double (Fin a) (Fin b) = Fin (a + b)"
| "plus_double _ _ = NaN"

fun minus_double :: "double \<Rightarrow> double \<Rightarrow> double" where
  "minus_double (Fin a) (Fin b) = Fin (a - b)"
| "minus_double _ _ = NaN"

fun uminus_double :: "double \<Rightarrow> double" where
  "uminus_double (Fin a) = Fin (- a)"
| "uminus_double NaN = NaN"

fun times_double :: "double \<Rightarrow> double \<Rightarrow> double" where
  "times_double (Fin a) (Fin b) = Fin (a * b)"
| "times_double _ _ = NaN"

fun divide_double :: "double \<Rightarrow> double \<Rightarrow> double" where
  "divide_double (Fin a) (Fin b) = (if b = 0 then NaN else Fin (a / b))"
| "divide_double _ _ = NaN"

fun inverse_double :: "double \<Rightarrow> double" where
  "inverse_double (Fin a) = (if a = 0 then NaN else Fin (1 / a))"
| "inverse_double NaN = NaN"

instance
proof (intro_classes, goal_cases)
  case (1 a b c)
  show ?case by (cases a; cases b; cases c; simp)
next
  case (2 a b)
  show ?case by (cases a; cases b; simp)
next
  case (3 a)
  show ?case by (cases a; simp add: zero_double_def)
next
  case (4 a b c)
  show ?case by (cases a; cases b; cases c; simp)
next
  case (5 a b)
  show ?case by (cases a; cases b; simp)
next
  case (6 a)
  show ?case by (cases a; simp add: one_double_def)
qed

end

text \<open>
  \<^verbatim>\<open>sqrt\<close>, \<^verbatim>\<open>exp\<close> and \<^verbatim>\<open>pow\<close> of \<^verbatim>\<open>cmath\<close>. One effect of the finite range of a
  \<^verbatim>\<open>double\<close> is kept, because the E-step of the specification is about it. The least
  positive \<^verbatim>\<open>double\<close> is \<open>2\<^sup>-\<^sup>1\<^sup>0\<^sup>7\<^sup>4\<close>; an exponential that is at most half of it,
  which is the case for an argument of at most \<open>- 1075 \<cdot> ln 2\<close> (about \<open>- 745.13\<close>), is
  rounded to 0, and \<^verbatim>\<open>exp\<close> returns 0. \<open>exp_double\<close> is the real number that \<^verbatim>\<open>exp\<close>
  returns for a real argument.
\<close>

fun sqrt_d :: "double \<Rightarrow> double" where
  "sqrt_d (Fin a) = (if a < 0 then NaN else Fin (sqrt a))"
| "sqrt_d NaN = NaN"

definition exp_double :: "real \<Rightarrow> real" where
  "exp_double a = (if a \<le> - (1075 * ln 2) then 0 else exp a)"

fun exp_d :: "double \<Rightarrow> double" where
  "exp_d (Fin a) = Fin (exp_double a)"
| "exp_d NaN = NaN"

fun pow_d :: "double \<Rightarrow> double \<Rightarrow> double" where
  "pow_d (Fin a) (Fin b) =
     (if b = of_int \<lfloor>b\<rfloor> \<and> 0 \<le> b then Fin (a ^ nat \<lfloor>b\<rfloor>)
      else if 0 < a then Fin (a powr b)
      else if b = of_int \<lfloor>b\<rfloor> \<and> a \<noteq> 0 then Fin (1 / a ^ nat \<lfloor>- b\<rfloor>)
      else if a = 0 \<and> 0 < b then Fin 0
      else NaN)"
| "pow_d _ _ = NaN"

text \<open>The conversion of an integer to \<^verbatim>\<open>double\<close>.\<close>

definition double_of_int :: "int \<Rightarrow> double" where
  "double_of_int k = Fin (of_int k)"

definition M_PI :: double where
  "M_PI = Fin pi"

text \<open>
  The C++ type \<^verbatim>\<open>int\<close> has 32 bits: a value of that type is an \<open>int\<close> in the range
  from \<open>- 2 ^ 31\<close> to \<open>2 ^ 31 - 1\<close>, and \<open>int32\<close> is what is stored when a result
  or a converted value lies outside (two's complement wrap-around). The division of
  two \<^verbatim>\<open>int\<close> truncates towards zero (\<open>sdiv\<close>). Where an \<^verbatim>\<open>int\<close> is compared
  with a \<^verbatim>\<open>size_t\<close> it is converted to 64 bits without sign.
\<close>

definition int32 :: "int \<Rightarrow> int" where
  "int32 k = signed_take_bit 31 k"

definition size_t_of_int :: "int \<Rightarrow> nat" where
  "size_t_of_int k = nat (k mod 2 ^ 64)"

text \<open>
  Modelled from the spec: the macro \<^verbatim>\<open>isininc(A, x, B)\<close> of YgorMisc.h, which is not part
  of the sources. \<open>x\<close> lies in the closed interval from \<open>A\<close> to \<open>B\<close>, as in the index
  ranges of the specification. The arguments are \<^verbatim>\<open>long int\<close>; no arithmetic is done on
  them.
\<close>

definition isininc :: "int \<Rightarrow> int \<Rightarrow> int \<Rightarrow> bool" where
  "isininc A x B \<longleftrightarrow> A \<le> x \<and> x \<le> B"

section \<open>Dense matrices\<close>

text \<open>
  Modelled from the spec: Eigen is not part of the sources. \<^verbatim>\<open>Eigen::MatrixXd\<close> is a
  number of rows, a number of columns and the coefficients, read as \<^verbatim>\<open>A(i, j)\<close>. The
  operations are the linear algebra primitives of the specification that the
  registration code calls: product, transpose, sum and difference, the sum of all
  coefficients, the squared norm, the means of the columns and the subtraction of a row
  vector from every row. Where Eigen requires operands of matching sizes the sizes of
  the result are those of the left operand.
\<close>

record MatrixXd =
  rows :: nat
  cols :: nat
  elem :: "nat \<Rightarrow> nat \<Rightarrow> double"

definition Zero :: "nat \<Rightarrow> nat \<Rightarrow> MatrixXd" where
  "Zero r c = \<lparr>rows = r, cols = c, elem = (\<lambda>i j. 0)\<rparr>"

definition set_elem :: "MatrixXd \<Rightarrow> nat \<Rightarrow> nat \<Rightarrow> double \<Rightarrow> MatrixXd" where
  "set_elem A i j v = A\<lparr>elem := (elem A)(i := (elem A i)(j := v))\<rparr>"

definition row :: "MatrixXd \<Rightarrow> nat \<Rightarrow> MatrixXd" where
  "row A i = \<lparr>rows = 1, cols = cols A, elem = (\<lambda>k j. elem A i j)\<rparr>"

definition col :: "MatrixXd \<Rightarrow> nat \<Rightarrow> MatrixXd" where
  "col A j = \<lparr>rows = rows A, cols = 1, elem = (\<lambda>i k. elem A i j)\<rparr>"

definition transpose_m :: "MatrixXd \<Rightarrow> MatrixXd" where
  "transpose_m A = \<lparr>rows = cols A, cols = rows A, elem = (\<lambda>i j. elem A j i)\<rparr>"

definition mat_plus :: "MatrixXd \<Rightarrow> MatrixXd \<Rightarrow> MatrixXd" where
  "mat_plus A B = \<lparr>rows = rows A, cols = cols A, elem = (\<lambda>i j. elem A i j + elem B i j)\<rparr>"

definition mat_minus :: "MatrixXd \<Rightarrow> MatrixXd \<Rightarrow> MatrixXd" where
  "mat_minus A B = \<lparr>rows = rows A, cols = cols A, elem = (\<lambda>i j. elem A i j - elem B i j)\<rparr>"

definition mat_times :: "MatrixXd \<Rightarrow> MatrixXd \<Rightarrow> MatrixXd" where
  "mat_times A B =
     \<lparr>rows = rows A, cols = cols B,
      elem = (\<lambda>i j. sum_list (map (\<lambda>k. elem A i k * elem B k j) [0..<cols A]))\<rparr>"

text \<open>\<^verbatim>\<open>sum()\<close>, \<^verbatim>\<open>squaredNorm()\<close>, \<^verbatim>\<open>colwise().mean()\<close> and \<^verbatim>\<open>rowwise() - v\<close>.\<close>

definition msum :: "MatrixXd \<Rightarrow> double" where
  "msum A = sum_list (map (\<lambda>j. sum_list (map (\<lambda>i. elem A i j) [0..<rows A])) [0..<cols A])"

definition squaredNorm :: "MatrixXd \<Rightarrow> double" where
  "squaredNorm A =
     sum_list (map (\<lambda>j. sum_list (map (\<lambda>i. elem A i j * elem A i j) [0..<rows A])) [0..<cols A])"

definition colwise_mean :: "MatrixXd \<Rightarrow> MatrixXd" where
  "colwise_mean A =
     \<lparr>rows = 1, cols = cols A, elem = (\<lambda>k j. msum (col A j) / Fin (real (rows A)))\<rparr>"

definition rowwise_minus :: "MatrixXd \<Rightarrow> MatrixXd \<Rightarrow> MatrixXd" where
  "rowwise_minus A v =
     \<lparr>rows = rows A, cols = cols A, elem = (\<lambda>i j. elem A i j - elem v 0 j)\<rparr>"

section \<open>CPD_Shared.cc\<close>

text \<open>
  \<^verbatim>\<open>Init_Sigma_Squared\<close>: the two loops add the squared norm of every difference of a
  row of \<^verbatim>\<open>xPoints\<close> and a row of \<^verbatim>\<open>yPoints\<close> to \<^verbatim>\<open>normSum\<close>. The three counts are
  stored in \<^verbatim>\<open>int\<close> variables and their product is an \<^verbatim>\<open>int\<close> product.
\<close>

definition Init_Sigma_Squared :: "MatrixXd \<Rightarrow> MatrixXd \<Rightarrow> double" where
  "Init_Sigma_Squared xPoints yPoints =
     (let normSum = 0;
          nRowsX = int32 (int (rows xPoints));
          mRowsY = int32 (int (rows yPoints));
          dim = int32 (int (cols xPoints));
          normSum =
            fold (\<lambda>i normSum.
                    let xRow = transpose_m (row xPoints i)
                    in fold (\<lambda>j normSum.
                               let yRow = transpose_m (row yPoints j);
                                   rowDiff = mat_minus xRow yRow
                               in normSum + squaredNorm rowDiff)
                         [0..<nat mRowsY] normSum)
              [0..<nat nRowsX] normSum
      in 1 / double_of_int (int32 (int32 (nRowsX * mRowsY) * dim)) * normSum)"

text \<open>
  \<^verbatim>\<open>E_Step\<close>: the first pair of loops fills \<^verbatim>\<open>expMat\<close>, the second fills \<^verbatim>\<open>postProb\<close>.
  The exponent of \<^verbatim>\<open>pow\<close> is the \<^verbatim>\<open>int\<close> quotient \<^verbatim>\<open>dimensionality/2\<close> and the last
  factor is the \<^verbatim>\<open>int\<close> quotient \<^verbatim>\<open>mRowsY / nRowsX\<close>, each converted to
  \<^verbatim>\<open>double\<close> after the division. The timing statements have no effect on the result;
  \<^verbatim>\<open>scale\<close> is not used.
\<close>

definition E_Step ::
  "MatrixXd \<Rightarrow> MatrixXd \<Rightarrow> MatrixXd \<Rightarrow> MatrixXd \<Rightarrow> double \<Rightarrow> double \<Rightarrow> double \<Rightarrow> MatrixXd" where
  "E_Step xPoints yPoints rotationMatrix t sigmaSquared w scale =
     (let postProb = Zero (rows yPoints) (rows xPoints);
          expMat = Zero (rows yPoints) (rows xPoints);
          mRowsY = int32 (int (rows yPoints));
          nRowsX = int32 (int (rows xPoints));
          dimensionality = int32 (int (cols yPoints));
          expMat =
            fold (\<lambda>m. fold (\<lambda>n expMat.
                    let tempVector =
                          mat_minus (transpose_m (row xPoints n))
                            (mat_plus (mat_times rotationMatrix (transpose_m (row yPoints m))) t);
                        expArg = - 1 / (2 * sigmaSquared) * squaredNorm tempVector
                    in set_elem expMat m n (exp_d expArg))
                  [0..<size_t_of_int nRowsX])
              [0..<size_t_of_int mRowsY] expMat;
          postProb =
            fold (\<lambda>m. fold (\<lambda>n postProb.
                    let numerator = elem expMat m n;
                        denominator =
                          msum (col expMat n)
                            + pow_d (2 * M_PI * sigmaSquared) (double_of_int (dimensionality sdiv 2))
                                * (w / (1 - w)) * double_of_int (mRowsY sdiv nRowsX)
                    in set_elem postProb m n (numerator / denominator))
                  [0..<size_t_of_int nRowsX])
              [0..<size_t_of_int mRowsY] postProb
      in postProb)"

section \<open>Errors\<close>

text \<open>
  The exceptions the code throws, under the names of the specification's error kinds:
  \<open>INVALID_COEFFICIENT\<close> is the \<^verbatim>\<open>std::invalid_argument\<close> of \<^verbatim>\<open>coeff\<close>,
  \<open>NOT_AFFINE\<close> the \<^verbatim>\<open>std::runtime_error\<close> of \<^verbatim>\<open>apply_to\<close>, \<open>INVALID_SELECTION\<close> and
  \<open>METHOD_UNKNOWN\<close> the two \<^verbatim>\<open>std::invalid_argument\<close> of the operation. No statement of
  the source throws for an empty point set; \<open>EMPTY_POINTSET\<close> is listed because the
  specification names it.
\<close>

datatype error =
    INVALID_COEFFICIENT
  | NOT_AFFINE
  | INVALID_SELECTION
  | METHOD_UNKNOWN
  | EMPTY_POINTSET

section \<open>Points and point clouds\<close>

text \<open>
  Modelled from the spec: YgorMath.h is not part of the sources. \<^verbatim>\<open>vec3<double>\<close> is the
  3D vector of the specification, with the operations the aligners use: difference,
  product and quotient with a scalar, \<^verbatim>\<open>Dot\<close> and \<^verbatim>\<open>unit\<close>. \<^verbatim>\<open>unit\<close> divides each
  component by the length and has no test for a zero length.
\<close>

record vec3 =
  x :: double
  y :: double
  z :: double

definition vec3_minus :: "vec3 \<Rightarrow> vec3 \<Rightarrow> vec3" where
  "vec3_minus a b = \<lparr>x = x a - x b, y = y a - y b, z = z a - z b\<rparr>"

definition vec3_times :: "vec3 \<Rightarrow> double \<Rightarrow> vec3" where
  "vec3_times a r = \<lparr>x = x a * r, y = y a * r, z = z a * r\<rparr>"

definition vec3_divide :: "vec3 \<Rightarrow> double \<Rightarrow> vec3" where
  "vec3_divide a r = \<lparr>x = x a / r, y = y a / r, z = z a / r\<rparr>"

definition Dot :: "vec3 \<Rightarrow> vec3 \<Rightarrow> double" where
  "Dot a b = x a * x b + y a * y b + z a * z b"

definition unit :: "vec3 \<Rightarrow> vec3" where
  "unit a = (let tot = sqrt_d (x a * x a + y a * y a + z a * z a)
             in \<lparr>x = x a / tot, y = y a / tot, z = z a / tot\<rparr>)"

text \<open>
  Modelled from the spec: Structs.h is not part of the sources. A \<^verbatim>\<open>Point_Cloud\<close> is the
  finite ordered sequence of 3D points of the specification: the member \<^verbatim>\<open>points\<close> is a
  sequence of pairs of a position and an attribute; the aligners read and write only
  the position (\<^verbatim>\<open>p.first\<close>).
\<close>

record Point_Cloud =
  points :: "(vec3 \<times> nat) list"

section \<open>AffineTransform\<close>

text \<open>
  The private member \<^verbatim>\<open>t\<close> is a 4 by 4 array, initialised to the identity.
  \<^verbatim>\<open>coeff(i, j)\<close> returns a reference to \<^verbatim>\<open>t[i][j]\<close> or throws; the callers read
  through the reference (\<open>coeff_get\<close>) or assign to it (\<open>coeff_set\<close>).
\<close>

record AffineTransform =
  t :: "double list list"

definition identity :: AffineTransform where
  "identity = \<lparr>t = [[1, 0, 0, 0],
                     [0, 1, 0, 0],
                     [0, 0, 1, 0],
                     [0, 0, 0, 1]]\<rparr>"

definition coeff_get :: "AffineTransform \<Rightarrow> int \<Rightarrow> int \<Rightarrow> error + double" where
  "coeff_get T i j =
     (if \<not> isininc 0 i 3 \<or> \<not> isininc 0 j 2 then Inl INVALID_COEFFICIENT
      else Inr (t T ! nat i ! nat j))"

definition coeff_set :: "AffineTransform \<Rightarrow> int \<Rightarrow> int \<Rightarrow> double \<Rightarrow> error + AffineTransform" where
  "coeff_set T i j v =
     (if \<not> isininc 0 i 3 \<or> \<not> isininc 0 j 2 then Inl INVALID_COEFFICIENT
      else Inr (T\<lparr>t := (t T)[nat i := (t T ! nat i)[nat j := v]]\<rparr>))"

text \<open>The homogeneous weight \<^verbatim>\<open>w\<close> that \<^verbatim>\<open>apply_to\<close> computes and tests.\<close>

definition weight :: "AffineTransform \<Rightarrow> vec3 \<Rightarrow> double" where
  "weight T v = (x v * (t T ! 0 ! 3)) + (y v * (t T ! 1 ! 3)) + (z v * (t T ! 2 ! 3))
                  + (1 * (t T ! 3 ! 3))"

definition apply_to :: "AffineTransform \<Rightarrow> vec3 \<Rightarrow> error + vec3" where
  "apply_to T v =
     (let x' = (x v * (t T ! 0 ! 0)) + (y v * (t T ! 1 ! 0)) + (z v * (t T ! 2 ! 0))
                 + (1 * (t T ! 3 ! 0));
          y' = (x v * (t T ! 0 ! 1)) + (y v * (t T ! 1 ! 1)) + (z v * (t T ! 2 ! 1))
                 + (1 * (t T ! 3 ! 1));
          z' = (x v * (t T ! 0 ! 2)) + (y v * (t T ! 1 ! 2)) + (z v * (t T ! 2 ! 2))
                 + (1 * (t T ! 3 ! 2));
          w = weight T v
      in if w \<noteq> 1 then Inl NOT_AFFINE else Inr \<lparr>x = x', y = y', z = z'\<rparr>)"

text \<open>
  \<^verbatim>\<open>apply_to(Point_Cloud &)\<close>: every position is replaced in input order; the first
  exception leaves the loop.
\<close>

fun apply_to_points :: "AffineTransform \<Rightarrow> (vec3 \<times> nat) list \<Rightarrow> error + (vec3 \<times> nat) list" where
  "apply_to_points T [] = Inr []"
| "apply_to_points T (p # ps) =
     (case apply_to T (fst p) of
        Inl e \<Rightarrow> Inl e
      | Inr q \<Rightarrow> (case apply_to_points T ps of
                    Inl e \<Rightarrow> Inl e
                  | Inr qs \<Rightarrow> Inr ((q, snd p) # qs)))"

definition apply_to_cloud :: "AffineTransform \<Rightarrow> Point_Cloud \<Rightarrow> error + Point_Cloud" where
  "apply_to_cloud T pc =
     (case apply_to_points T (points pc) of
        Inl e \<Rightarrow> Inl e
      | Inr ps \<Rightarrow> Inr (pc\<lparr>points := ps\<rparr>))"

text \<open>A sequence of assignments through \<^verbatim>\<open>coeff\<close>; the first one that throws ends it.\<close>

fun coeff_writes :: "AffineTransform \<Rightarrow> (int \<times> int \<times> double) list \<Rightarrow> error + AffineTransform" where
  "coeff_writes T [] = Inr T"
| "coeff_writes T ((i, j, v) # ws) =
     (case coeff_set T i j v of
        Inl e \<Rightarrow> Inl e
      | Inr T' \<Rightarrow> coeff_writes T' ws)"

section \<open>The aligners of AlignPoints.cc\<close>

text \<open>
  Modelled from the spec: YgorStats.h is not part of the sources.
  \<^verbatim>\<open>Stats::Running_Sum<double>\<close> is the running-sum accumulator of the specification,
  whose summation order follows the input order: \<^verbatim>\<open>Digest\<close> adds a value to the sum,
  \<^verbatim>\<open>Current_Sum\<close> reads it.
\<close>

record Running_Sum =
  Current_Sum :: double

definition Running_Sum_init :: Running_Sum where
  "Running_Sum_init = \<lparr>Current_Sum = 0\<rparr>"

definition Digest :: "Running_Sum \<Rightarrow> double \<Rightarrow> Running_Sum" where
  "Digest rs v = rs\<lparr>Current_Sum := Current_Sum rs + v\<rparr>"

text \<open>
  The lambda \<^verbatim>\<open>est_COM\<close>, written out identically in both aligners. The quotient has
  no test for \<open>N = 0\<close>.
\<close>

definition est_COM :: "Point_Cloud \<Rightarrow> vec3" where
  "est_COM pc =
     (let N = length (points pc);
          (COM_sx, COM_sy, COM_sz) =
            fold (\<lambda>p (COM_sx, COM_sy, COM_sz).
                    (Digest COM_sx (x (fst p)), Digest COM_sy (y (fst p)), Digest COM_sz (z (fst p))))
              (points pc) (Running_Sum_init, Running_Sum_init, Running_Sum_init)
      in vec3_divide \<lparr>x = Current_Sum COM_sx, y = Current_Sum COM_sy, z = Current_Sum COM_sz\<rparr>
           (Fin (real N)))"

text \<open>
  \<^verbatim>\<open>AlignViaCOM\<close> returns a \<^verbatim>\<open>std::optional\<close>; the only \<^verbatim>\<open>return\<close> statement returns
  the transform.
\<close>

definition AlignViaCOM :: "Point_Cloud \<Rightarrow> Point_Cloud \<Rightarrow> error + AffineTransform option" where
  "AlignViaCOM moving stationary =
     (let COM_s = est_COM stationary;
          COM_m = est_COM moving;
          dCOM = vec3_minus COM_s COM_m
      in case coeff_writes identity [(3, 0, x dCOM), (3, 1, y dCOM), (3, 2, z dCOM)] of
           Inl e \<Rightarrow> Inl e
         | Inr T \<Rightarrow> Inr (Some T))"

record pcomps =
  pc1 :: vec3
  pc2 :: vec3
  pc3 :: vec3

text \<open>
  The lambda \<^verbatim>\<open>est_PCA\<close>. \<^verbatim>\<open>Eigen::SelfAdjointEigenSolver\<close> is not part of the
  sources: the function that maps the matrix \<^verbatim>\<open>cov\<close> to the matrix of eigenvectors is
  the parameter \<open>eigenvectors\<close>.
\<close>

definition est_PCA :: "(MatrixXd \<Rightarrow> MatrixXd) \<Rightarrow> Point_Cloud \<Rightarrow> pcomps" where
  "est_PCA eigenvectors pc =
     (let mat_rows = length (points pc);
          mat_cols = 3;
          mat = fold (\<lambda>(i, v) mat.
                        set_elem (set_elem (set_elem mat i 0 (x (fst v))) i 1 (y (fst v)))
                          i 2 (z (fst v)))
                  (zip [0..<mat_rows] (points pc)) (Zero mat_rows mat_cols);
          centered = rowwise_minus mat (colwise_mean mat);
          cov = mat_times (transpose_m centered) centered;
          evecs = eigenvectors cov
      in \<lparr>pc1 = unit \<lparr>x = elem evecs 0 0, y = elem evecs 1 0, z = elem evecs 2 0\<rparr>,
          pc2 = unit \<lparr>x = elem evecs 0 1, y = elem evecs 1 1, z = elem evecs 2 1\<rparr>,
          pc3 = unit \<lparr>x = elem evecs 0 2, y = elem evecs 1 2, z = elem evecs 2 2\<rparr>\<rparr>)"

text \<open>
  The lambda \<^verbatim>\<open>reorient_pcomps\<close>: the sums of the cubed projections, then each
  component scaled by its sum and normalised with \<^verbatim>\<open>unit\<close>.
\<close>

definition reorient_pcomps :: "vec3 \<Rightarrow> pcomps \<Rightarrow> Point_Cloud \<Rightarrow> pcomps" where
  "reorient_pcomps COM comps pc =
     (let (rs_pc1, rs_pc2, rs_pc3) =
            fold (\<lambda>v (rs_pc1, rs_pc2, rs_pc3).
                    let sv = vec3_minus (fst v) COM;
                        proj_pc1 = Dot sv (pc1 comps);
                        proj_pc2 = Dot sv (pc2 comps);
                        proj_pc3 = Dot sv (pc3 comps)
                    in (Digest rs_pc1 (pow_d proj_pc1 (Fin 3)),
                        Digest rs_pc2 (pow_d proj_pc2 (Fin 3)),
                        Digest rs_pc3 (pow_d proj_pc3 (Fin 3))))
              (points pc) (Running_Sum_init, Running_Sum_init, Running_Sum_init)
      in \<lparr>pc1 = unit (vec3_times (pc1 comps) (Current_Sum rs_pc1)),
          pc2 = unit (vec3_times (pc2 comps) (Current_Sum rs_pc2)),
          pc3 = unit (vec3_times (pc3 comps) (Current_Sum rs_pc3))\<rparr>)"

text \<open>
  A \<^verbatim>\<open>Matrix3d\<close> whose columns are the three components, as the nine assignments to
  \<^verbatim>\<open>S\<close> and to \<^verbatim>\<open>M\<close> build it, and the \<^verbatim>\<open>Vector3d\<close> of a \<^verbatim>\<open>vec3\<close>.
\<close>

definition Matrix3d_of_pcomps :: "pcomps \<Rightarrow> MatrixXd" where
  "Matrix3d_of_pcomps c =
     fold (\<lambda>(i, j, v) A. set_elem A i j v)
       [(0, 0, x (pc1 c)), (1, 0, y (pc1 c)), (2, 0, z (pc1 c)),
        (0, 1, x (pc2 c)), (1, 1, y (pc2 c)), (2, 1, z (pc2 c)),
        (0, 2, x (pc3 c)), (1, 2, y (pc3 c)), (2, 2, z (pc3 c))]
       (Zero 3 3)"

definition Vector3d :: "double \<Rightarrow> double \<Rightarrow> double \<Rightarrow> MatrixXd" where
  "Vector3d a b c = set_elem (set_elem (set_elem (Zero 3 1) 0 0 a) 1 0 b) 2 0 c"

text \<open>
  \<^verbatim>\<open>AlignViaPCA\<close>. The logging statements read coefficients with indices in range and
  change nothing.
\<close>

definition AlignViaPCA ::
  "(MatrixXd \<Rightarrow> MatrixXd) \<Rightarrow> Point_Cloud \<Rightarrow> Point_Cloud \<Rightarrow> error + AffineTransform option" where
  "AlignViaPCA eigenvectors moving stationary =
     (let COM_s = est_COM stationary;
          COM_m = est_COM moving;
          pcomps_stationary = est_PCA eigenvectors stationary;
          pcomps_moving = est_PCA eigenvectors moving;
          reoriented_pcomps_stationary = reorient_pcomps COM_s pcomps_stationary stationary;
          reoriented_pcomps_moving = reorient_pcomps COM_m pcomps_moving moving;
          S = Matrix3d_of_pcomps reoriented_pcomps_stationary;
          M = Matrix3d_of_pcomps reoriented_pcomps_moving;
          A = mat_times S (transpose_m M);
          e_COM_m = Vector3d (x COM_m) (y COM_m) (z COM_m);
          A_e_COM_m = mat_times A e_COM_m
      in case coeff_writes identity
                [(0, 0, elem A 0 0), (0, 1, elem A 1 0), (0, 2, elem A 2 0),
                 (1, 0, elem A 0 1), (1, 1, elem A 1 1), (1, 2, elem A 2 1),
                 (2, 0, elem A 0 2), (2, 1, elem A 1 2), (2, 2, elem A 2 2),
                 (3, 0, x COM_s - elem A_e_COM_m 0 0),
                 (3, 1, y COM_s - elem A_e_COM_m 1 0),
                 (3, 2, z COM_s - elem A_e_COM_m 2 0)] of
           Inl e \<Rightarrow> Inl e
         | Inr T \<Rightarrow> Inr (Some T))"

text \<open>
  The value of the variable \<^verbatim>\<open>cov\<close> of \<^verbatim>\<open>est_PCA\<close>, the matrix that is handed to the
  eigenvector routine: the product of the transposed centred coordinates and the centred
  coordinates, which the code does not divide by the number of points.
\<close>

definition covariance :: "Point_Cloud \<Rightarrow> MatrixXd" where
  "covariance pc =
     (let mat_rows = length (points pc);
          mat_cols = 3;
          mat = fold (\<lambda>(i, v) mat.
                        set_elem (set_elem (set_elem mat i 0 (x (fst v))) i 1 (y (fst v)))
                          i 2 (z (fst v)))
                  (zip [0..<mat_rows] (points pc)) (Zero mat_rows mat_cols);
          centered = rowwise_minus mat (colwise_mean mat)
      in mat_times (transpose_m centered) centered)"

text \<open>
  The value of the variables \<^verbatim>\<open>reoriented_pcomps_stationary\<close> and
  \<^verbatim>\<open>reoriented_pcomps_moving\<close> of \<^verbatim>\<open>AlignViaPCA\<close>, as a function of the cloud: what the
  code computes for it, \<open>NaN\<close> included.
\<close>

definition reoriented_pcomps :: "(MatrixXd \<Rightarrow> MatrixXd) \<Rightarrow> Point_Cloud \<Rightarrow> pcomps" where
  "reoriented_pcomps eigenvectors pc =
     reorient_pcomps (est_COM pc) (est_PCA eigenvectors pc) pc"

section \<open>The operation AlignPoints\<close>

text \<open>
  Modelled from the spec: Regex_Selectors.h is not part of the sources. \<^verbatim>\<open>Compile_Regex\<close>
  makes a regular expression that \<^verbatim>\<open>std::regex_match\<close> matches case-insensitively, as
  the specification says of the method. Only the two expressions of the operation are
  needed, each a
  sequence of letters that are required or optional (\<^verbatim>\<open>?\<close>) between the anchors;
  \<^verbatim>\<open>regex_match\<close> succeeds when the whole string matches. A capital letter of ASCII
  (codes 65 to 90) is compared as its small letter, which differs in bit 5.
\<close>

datatype regex_item = Lit char | Opt char

fun tolower :: "char \<Rightarrow> char" where
  "tolower (Char b0 b1 b2 b3 b4 b5 b6 b7) =
     (let n = (of_char (Char b0 b1 b2 b3 b4 b5 b6 b7) :: nat)
      in if 65 \<le> n \<and> n \<le> 90 then Char b0 b1 b2 b3 b4 True b6 b7
         else Char b0 b1 b2 b3 b4 b5 b6 b7)"

fun regex_match :: "string \<Rightarrow> regex_item list \<Rightarrow> bool" where
  "regex_match s [] \<longleftrightarrow> s = []"
| "regex_match s (Lit c # r) \<longleftrightarrow>
     (case s of [] \<Rightarrow> False | a # s' \<Rightarrow> tolower a = c \<and> regex_match s' r)"
| "regex_match s (Opt c # r) \<longleftrightarrow>
     (case s of [] \<Rightarrow> False | a # s' \<Rightarrow> tolower a = c \<and> regex_match s' r) \<or> regex_match s r"

definition regex_com :: "regex_item list" where
  "regex_com = [Lit CHR ''c'', Opt CHR ''o'', Opt CHR ''m'']"

definition regex_pca :: "regex_item list" where
  "regex_pca = [Lit CHR ''p'', Opt CHR ''c'', Opt CHR ''a'']"

text \<open>
  Modelled from the spec: Structs.h and Regex_Selectors.h are not part of the sources.
  The \<^verbatim>\<open>Drover\<close> is the host container of the specification and holds the point clouds.
  \<^verbatim>\<open>All_PCs\<close> lists references to all of them (here their positions) and \<^verbatim>\<open>Whitelist\<close>,
  a parameter here, selects some of these by a selection string. A moving cloud is
  transformed in place, so a later iteration reads the clouds as the earlier ones left
  them.
\<close>

record Drover =
  point_data :: "Point_Cloud list"

definition All_PCs :: "Drover \<Rightarrow> nat list" where
  "All_PCs DICOM_data = [0..<length (point_data DICOM_data)]"

fun align_loop ::
  "(MatrixXd \<Rightarrow> MatrixXd) \<Rightarrow> string \<Rightarrow> nat \<Rightarrow> nat list \<Rightarrow> Drover \<Rightarrow> error + Drover" where
  "align_loop eigenvectors MethodStr ref [] DICOM_data = Inr DICOM_data"
| "align_loop eigenvectors MethodStr ref (pcp # moving_PCs) DICOM_data =
     (if regex_match MethodStr regex_com then
        (case AlignViaCOM (point_data DICOM_data ! pcp) (point_data DICOM_data ! ref) of
           Inl e \<Rightarrow> Inl e
         | Inr None \<Rightarrow> align_loop eigenvectors MethodStr ref moving_PCs DICOM_data
         | Inr (Some t_opt) \<Rightarrow>
             (case apply_to_cloud t_opt (point_data DICOM_data ! pcp) of
                Inl e \<Rightarrow> Inl e
              | Inr pc \<Rightarrow>
                  align_loop eigenvectors MethodStr ref moving_PCs
                    (DICOM_data\<lparr>point_data := (point_data DICOM_data)[pcp := pc]\<rparr>)))
      else if regex_match MethodStr regex_pca then
        (case AlignViaPCA eigenvectors (point_data DICOM_data ! pcp) (point_data DICOM_data ! ref) of
           Inl e \<Rightarrow> Inl e
         | Inr None \<Rightarrow> align_loop eigenvectors MethodStr ref moving_PCs DICOM_data
         | Inr (Some t_opt) \<Rightarrow>
             (case apply_to_cloud t_opt (point_data DICOM_data ! pcp) of
                Inl e \<Rightarrow> Inl e
              | Inr pc \<Rightarrow>
                  align_loop eigenvectors MethodStr ref moving_PCs
                    (DICOM_data\<lparr>point_data := (point_data DICOM_data)[pcp := pc]\<rparr>)))
      else Inl METHOD_UNKNOWN)"

definition AlignPoints ::
  "(MatrixXd \<Rightarrow> MatrixXd) \<Rightarrow> (nat list \<Rightarrow> string \<Rightarrow> nat list) \<Rightarrow> Drover
     \<Rightarrow> string \<Rightarrow> string \<Rightarrow> string \<Rightarrow> error + Drover" where
  "AlignPoints eigenvectors Whitelist DICOM_data MovingPointSelectionStr
       ReferencePointSelectionStr MethodStr =
     (let PCs_all = All_PCs DICOM_data;
          ref_PCs = Whitelist PCs_all ReferencePointSelectionStr
      in if length ref_PCs \<noteq> 1 then Inl INVALID_SELECTION
         else let moving_PCs = Whitelist PCs_all MovingPointSelectionStr
              in align_loop eigenvectors MethodStr (hd ref_PCs) moving_PCs DICOM_data)"

section \<open>Notions of the specification\<close>

text \<open>
  The product \<open>T \<cdot> [p; 1]\<close> of the specification, all four components: component \<open>r\<close>
  is the sum over \<open>c\<close> of the \<open>c\<close>-th homogeneous coordinate times \<^verbatim>\<open>t[c][r]\<close>.
\<close>

definition homogeneous :: "AffineTransform \<Rightarrow> vec3 \<Rightarrow> double list" where
  "homogeneous T v =
     map (\<lambda>r. sum_list (map (\<lambda>c. ([x v, y v, z v, 1] ! c) * (t T ! c ! r)) [0..<4])) [0..<4]"

text \<open>The tolerance of the specification: a weight that differs from 1 by at most \<open>10\<^sup>-\<^sup>1\<^sup>2\<close>.\<close>

fun within_tolerance :: "double \<Rightarrow> bool" where
  "within_tolerance (Fin a) \<longleftrightarrow> \<bar>a - 1\<bar> \<le> 1 / 10 ^ 12"
| "within_tolerance NaN \<longleftrightarrow> False"

text \<open>
  The array has four rows of four entries and the entries \<^verbatim>\<open>t[0][3]\<close>, \<^verbatim>\<open>t[1][3]\<close>,
  \<^verbatim>\<open>t[2][3]\<close>, \<^verbatim>\<open>t[3][3]\<close> are 0, 0, 0, 1.
\<close>

definition fixed_column :: "AffineTransform \<Rightarrow> bool" where
  "fixed_column T \<longleftrightarrow>
     length (t T) = 4 \<and> length (t T ! 0) = 4 \<and> length (t T ! 1) = 4
     \<and> length (t T ! 2) = 4 \<and> length (t T ! 3) = 4
     \<and> t T ! 0 ! 3 = 0 \<and> t T ! 1 ! 3 = 0 \<and> t T ! 2 ! 3 = 0 \<and> t T ! 3 ! 3 = 1"

text \<open>
  A coordinate that is a real number, and that number; a point and a cloud all of whose
  coordinates are real numbers.
\<close>

fun the_real :: "double \<Rightarrow> real" where
  "the_real (Fin a) = a"
| "the_real NaN = 0"

definition finite_vec3 :: "vec3 \<Rightarrow> bool" where
  "finite_vec3 v \<longleftrightarrow> x v \<noteq> NaN \<and> y v \<noteq> NaN \<and> z v \<noteq> NaN"

definition finite_cloud :: "Point_Cloud \<Rightarrow> bool" where
  "finite_cloud pc \<longleftrightarrow> list_all (\<lambda>p. finite_vec3 (fst p)) (points pc)"

definition nan3 :: vec3 where
  "nan3 = \<lparr>x = NaN, y = NaN, z = NaN\<rparr>"

text \<open>
  The mean of the specification's COM aligner: the running sum of the values in input
  order, divided by their number. \<open>xs_of\<close>, \<open>ys_of\<close> and \<open>zs_of\<close> list the coordinates of
  a cloud in input order.
\<close>

definition running_mean :: "real list \<Rightarrow> real" where
  "running_mean as = foldl (+) 0 as / real (length as)"

definition xs_of :: "Point_Cloud \<Rightarrow> real list" where
  "xs_of pc = map (\<lambda>p. the_real (x (fst p))) (points pc)"

definition ys_of :: "Point_Cloud \<Rightarrow> real list" where
  "ys_of pc = map (\<lambda>p. the_real (y (fst p))) (points pc)"

definition zs_of :: "Point_Cloud \<Rightarrow> real list" where
  "zs_of pc = map (\<lambda>p. the_real (z (fst p))) (points pc)"

text \<open>
  The matrices of the specification's PCA aligner. \<open>S_Mt s m r c\<close> is the entry in row
  \<open>r\<close> and column \<open>c\<close> of \<open>S \<cdot> M\<^sup>T\<close>, where the columns of \<open>S\<close> and of \<open>M\<close> are the
  three vectors of \<open>s\<close> and of \<open>m\<close>; \<open>PCA_shift\<close> is the component \<open>r\<close> of
  \<open>\<mu>\<^sub>x - A \<cdot> \<mu>\<^sub>y\<close> for \<open>A = S \<cdot> M\<^sup>T\<close>. The third moment along \<open>e\<close> is the sum of the
  cubed projections of the centred points.
\<close>

definition coord :: "vec3 \<Rightarrow> nat \<Rightarrow> double" where
  "coord v r = [x v, y v, z v] ! r"

definition axis :: "pcomps \<Rightarrow> nat \<Rightarrow> vec3" where
  "axis c k = [pc1 c, pc2 c, pc3 c] ! k"

definition S_Mt :: "pcomps \<Rightarrow> pcomps \<Rightarrow> nat \<Rightarrow> nat \<Rightarrow> double" where
  "S_Mt s m r c = sum_list (map (\<lambda>k. coord (axis s k) r * coord (axis m k) c) [0..<3])"

definition PCA_shift :: "pcomps \<Rightarrow> pcomps \<Rightarrow> vec3 \<Rightarrow> vec3 \<Rightarrow> nat \<Rightarrow> double" where
  "PCA_shift s m mu_x mu_y r =
     coord mu_x r - sum_list (map (\<lambda>c. S_Mt s m r c * coord mu_y c) [0..<3])"

definition third_moment :: "vec3 \<Rightarrow> vec3 \<Rightarrow> Point_Cloud \<Rightarrow> double" where
  "third_moment COM e pc =
     sum_list (map (\<lambda>v. pow_d (Dot (vec3_minus (fst v) COM) e) (Fin 3)) (points pc))"

text \<open>A cloud of two points that is symmetric about the origin.\<close>

definition symmetric_pair :: Point_Cloud where
  "symmetric_pair = \<lparr>points = [(\<lparr>x = Fin 1, y = Fin 0, z = Fin 0\<rparr>, 0),
                                 (\<lparr>x = Fin (- 1), y = Fin 0, z = Fin 0\<rparr>, 0)]\<rparr>"

text \<open>
  A cloud that meets the preconditions of the specification's PCA aligner: the six
  points \<open>(\<plusminus>1, 0, 0)\<close>, \<open>(0, \<plusminus>2, 0)\<close>, \<open>(0, 0, \<plusminus>3)\<close>, the symmetric part of the cloud
  of the specification's second scenario. Its centroid is the origin and its covariance
  is the diagonal matrix with the entries 2, 8 and 18, which has full rank.
\<close>

definition octahedron :: Point_Cloud where
  "octahedron = \<lparr>points = [(\<lparr>x = Fin 1, y = Fin 0, z = Fin 0\<rparr>, 0),
                             (\<lparr>x = Fin (- 1), y = Fin 0, z = Fin 0\<rparr>, 0),
                             (\<lparr>x = Fin 0, y = Fin 2, z = Fin 0\<rparr>, 0),
                             (\<lparr>x = Fin 0, y = Fin (- 2), z = Fin 0\<rparr>, 0),
                             (\<lparr>x = Fin 0, y = Fin 0, z = Fin 3\<rparr>, 0),
                             (\<lparr>x = Fin 0, y = Fin 0, z = Fin (- 3)\<rparr>, 0)]\<rparr>"

text \<open>
  The registration operator of the specification for one fixed aligner: every moving
  cloud, in turn, is aligned to the reference and transformed in place. The spellings
  of the two method names.
\<close>

fun align_all ::
  "(Point_Cloud \<Rightarrow> Point_Cloud \<Rightarrow> error + AffineTransform option) \<Rightarrow> nat \<Rightarrow> nat list \<Rightarrow> Drover
     \<Rightarrow> error + Drover" where
  "align_all aligner ref [] D = Inr D"
| "align_all aligner ref (p # ps) D =
     (case aligner (point_data D ! p) (point_data D ! ref) of
        Inl e \<Rightarrow> Inl e
      | Inr None \<Rightarrow> align_all aligner ref ps D
      | Inr (Some T) \<Rightarrow>
          (case apply_to_cloud T (point_data D ! p) of
             Inl e \<Rightarrow> Inl e
           | Inr pc \<Rightarrow> align_all aligner ref ps (D\<lparr>point_data := (point_data D)[p := pc]\<rparr>)))"

definition com_spellings :: "string set" where
  "com_spellings = {''c'', ''co'', ''cm'', ''com''}"

definition pca_spellings :: "string set" where
  "pca_spellings = {''p'', ''pc'', ''pa'', ''pca''}"

text \<open>A container with one cloud of one point.\<close>

definition one_cloud :: Drover where
  "one_cloud = \<lparr>point_data = [\<lparr>points = [(\<lparr>x = Fin 1, y = Fin 2, z = Fin 3\<rparr>, 0)]\<rparr>]\<rparr>"

text \<open>
  The point sets and transforms of the CPD claims: a matrix all of whose coefficients
  are real numbers, given by its sizes and its coefficients.
\<close>

definition real_matrix :: "nat \<Rightarrow> nat \<Rightarrow> (nat \<Rightarrow> nat \<Rightarrow> real) \<Rightarrow> MatrixXd" where
  "real_matrix r c f = \<lparr>rows = r, cols = c, elem = (\<lambda>i j. Fin (f i j))\<rparr>"

text \<open>
  The initial variance of the specification: the sum over all pairs of the squared
  distance of \<open>x\<^sub>n\<close> and \<open>y\<^sub>m\<close>, divided by \<open>N \<cdot> M \<cdot> D\<close>.
\<close>

definition sq_diff :: "nat \<Rightarrow> (nat \<Rightarrow> nat \<Rightarrow> real) \<Rightarrow> (nat \<Rightarrow> nat \<Rightarrow> real) \<Rightarrow> nat \<Rightarrow> nat \<Rightarrow> real" where
  "sq_diff D xr yr n m = sum_list (map (\<lambda>k. (xr n k - yr m k)\<^sup>2) [0..<D])"

definition sigma_squared_spec ::
  "nat \<Rightarrow> nat \<Rightarrow> nat \<Rightarrow> (nat \<Rightarrow> nat \<Rightarrow> real) \<Rightarrow> (nat \<Rightarrow> nat \<Rightarrow> real) \<Rightarrow> real" where
  "sigma_squared_spec N M D xr yr =
     1 / (real N * real M * real D)
       * sum_list (map (\<lambda>n. sum_list (map (\<lambda>m. sq_diff D xr yr n m) [0..<M])) [0..<N])"

text \<open>
  The posterior of the specification. \<open>sq_dist\<close> is the squared distance of \<open>x\<^sub>n\<close> and
  \<open>R \<cdot> y\<^sub>m + t\<close> (\<open>dx\<close> coordinates, \<open>dr\<close> columns of \<open>R\<close>), \<open>exp_arg\<close> the exponent
  \<open>- \<dots> / (2 \<sigma>\<^sup>2)\<close> and \<open>gauss\<close> the Gaussian weight, its exponential.
  \<open>posterior_const\<close> is the constant \<open>c\<close> with \<open>D = 3\<close>, the exponent \<open>D / 2\<close> and the
  ratio \<open>M / N\<close> being real numbers, and \<open>posterior_spec\<close> the entry \<open>P(m, n)\<close>.
\<close>

definition sq_dist ::
  "nat \<Rightarrow> nat \<Rightarrow> (nat \<Rightarrow> nat \<Rightarrow> real) \<Rightarrow> (nat \<Rightarrow> nat \<Rightarrow> real) \<Rightarrow> (nat \<Rightarrow> nat \<Rightarrow> real)
     \<Rightarrow> (nat \<Rightarrow> nat \<Rightarrow> real) \<Rightarrow> nat \<Rightarrow> nat \<Rightarrow> real" where
  "sq_dist dx dr xr yr rr tr n m =
     sum_list (map (\<lambda>i. (xr n i - (sum_list (map (\<lambda>k. rr i k * yr m k) [0..<dr]) + tr i 0))\<^sup>2)
                 [0..<dx])"

definition exp_arg ::
  "nat \<Rightarrow> nat \<Rightarrow> (nat \<Rightarrow> nat \<Rightarrow> real) \<Rightarrow> (nat \<Rightarrow> nat \<Rightarrow> real) \<Rightarrow> (nat \<Rightarrow> nat \<Rightarrow> real)
     \<Rightarrow> (nat \<Rightarrow> nat \<Rightarrow> real) \<Rightarrow> real \<Rightarrow> nat \<Rightarrow> nat \<Rightarrow> real" where
  "exp_arg dx dr xr yr rr tr s m n = - sq_dist dx dr xr yr rr tr n m / (2 * s)"

definition gauss ::
  "nat \<Rightarrow> nat \<Rightarrow> (nat \<Rightarrow> nat \<Rightarrow> real) \<Rightarrow> (nat \<Rightarrow> nat \<Rightarrow> real) \<Rightarrow> (nat \<Rightarrow> nat \<Rightarrow> real)
     \<Rightarrow> (nat \<Rightarrow> nat \<Rightarrow> real) \<Rightarrow> real \<Rightarrow> nat \<Rightarrow> nat \<Rightarrow> real" where
  "gauss dx dr xr yr rr tr s m n = exp (exp_arg dx dr xr yr rr tr s m n)"

definition posterior_const :: "nat \<Rightarrow> nat \<Rightarrow> real \<Rightarrow> real \<Rightarrow> real" where
  "posterior_const N M s w = (2 * pi * s) powr (3 / 2) * (w / (1 - w)) * (real M / real N)"

definition posterior_spec ::
  "nat \<Rightarrow> nat \<Rightarrow> (nat \<Rightarrow> nat \<Rightarrow> real) \<Rightarrow> (nat \<Rightarrow> nat \<Rightarrow> real) \<Rightarrow> (nat \<Rightarrow> nat \<Rightarrow> real)
     \<Rightarrow> (nat \<Rightarrow> nat \<Rightarrow> real) \<Rightarrow> real \<Rightarrow> real \<Rightarrow> nat \<Rightarrow> nat \<Rightarrow> real" where
  "posterior_spec N M xr yr rr tr s w m n =
     gauss 3 3 xr yr rr tr s m n
       / (sum_list (map (\<lambda>m'. gauss 3 3 xr yr rr tr s m' n) [0..<M]) + posterior_const N M s w)"

section \<open>Arithmetic of the scalars\<close>

lemma numeral_double: "(numeral k :: double) = Fin (numeral k)"
proof (induction k)
  case One
  then show ?case by (simp add: one_double_def)
next
  case (Bit0 k)
  then show ?case by (simp only: numeral.simps plus_double.simps)
next
  case (Bit1 k)
  then show ?case by (simp only: numeral.simps plus_double.simps one_double_def)
qed

lemmas double_simps = zero_double_def one_double_def numeral_double

lemma upt_4: "[0..<4] = [0, 1, 2, 3]"
  by (simp add: upt_rec)

lemma upt_3: "[0..<3] = [0, 1, 2]"
  by (simp add: upt_rec)

lemma Fin_the_real: "a \<noteq> NaN \<Longrightarrow> Fin (the_real a) = a"
  by (cases a) simp_all

lemma foldl_plus_real: "foldl (+) a as = a + sum_list (as :: real list)"
  by (induction as arbitrary: a) simp_all

lemma sum_list_finite:
  "list_all (\<lambda>p. f p \<noteq> NaN) ps \<Longrightarrow>
     sum_list (map f ps) = Fin (foldl (+) 0 (map (\<lambda>p. the_real (f p)) ps))"
proof (induction ps)
  case Nil
  then show ?case by (simp add: zero_double_def)
next
  case (Cons p ps)
  then obtain a where a: "f p = Fin a" by (cases "f p") auto
  with Cons show ?case by (simp add: foldl_plus_real)
qed

section \<open>Applying a transform\<close>

lemma homogeneous_nth:
  "homogeneous T v ! 0 =
     (x v * (t T ! 0 ! 0)) + (y v * (t T ! 1 ! 0)) + (z v * (t T ! 2 ! 0)) + (1 * (t T ! 3 ! 0))"
  "homogeneous T v ! 1 =
     (x v * (t T ! 0 ! 1)) + (y v * (t T ! 1 ! 1)) + (z v * (t T ! 2 ! 1)) + (1 * (t T ! 3 ! 1))"
  "homogeneous T v ! 2 =
     (x v * (t T ! 0 ! 2)) + (y v * (t T ! 1 ! 2)) + (z v * (t T ! 2 ! 2)) + (1 * (t T ! 3 ! 2))"
  "homogeneous T v ! 3 = weight T v"
  by (simp_all add: homogeneous_def upt_4 weight_def add.assoc)

text \<open>
  \<^verbatim>\<open>apply_to\<close> returns the first three components of \<open>T \<cdot> [p; 1]\<close> when the fourth,
  the weight, is equal to 1, and throws otherwise.
\<close>

lemma apply_to_homogeneous:
  "apply_to T v =
     (if homogeneous T v ! 3 = 1
      then Inr \<lparr>x = homogeneous T v ! 0, y = homogeneous T v ! 1, z = homogeneous T v ! 2\<rparr>
      else Inl NOT_AFFINE)"
  unfolding homogeneous_nth by (simp add: apply_to_def Let_def)

section \<open>The fixed coefficients\<close>

lemma fixed_column_identity: "fixed_column identity"
  by (simp add: fixed_column_def identity_def)

lemma fixed_column_coeff_set:
  assumes "fixed_column T" and "coeff_set T i j v = Inr T'"
  shows "fixed_column T'"
proof -
  from assms(2) have ij: "0 \<le> i" "i \<le> 3" "0 \<le> j" "j \<le> 2"
    and T': "T' = T\<lparr>t := (t T)[nat i := (t T ! nat i)[nat j := v]]\<rparr>"
    by (auto simp: coeff_set_def isininc_def split: if_splits)
  have j3: "nat j \<noteq> 3" using ij by simp
  have "nat i < 4" using ij by simp
  then consider "nat i = 0" | "nat i = 1" | "nat i = 2" | "nat i = 3" by linarith
  then show ?thesis
    using assms(1) j3 unfolding fixed_column_def T'
    by cases (simp_all add: nth_list_update)
qed

lemma fixed_column_coeff_writes:
  "fixed_column T \<Longrightarrow> coeff_writes T ws = Inr T' \<Longrightarrow> fixed_column T'"
proof (induction ws arbitrary: T)
  case Nil
  then show ?case by simp
next
  case (Cons w ws)
  obtain i j v where w: "w = (i, j, v)" by (cases w)
  from Cons.prems(2) obtain T1 where s: "coeff_set T i j v = Inr T1"
    and r: "coeff_writes T1 ws = Inr T'"
    by (auto simp: w split: sum.splits)
  from fixed_column_coeff_set [OF Cons.prems(1) s] Cons.IH r show ?case by blast
qed

lemma weight_fixed_column:
  "fixed_column T \<Longrightarrow> weight T \<lparr>x = Fin a, y = Fin b, z = Fin c\<rparr> = 1"
  by (simp add: fixed_column_def weight_def double_simps)

lemma coeff_set_rejects:
  "coeff_set T i j v = Inl INVALID_COEFFICIENT \<longleftrightarrow> \<not> (0 \<le> i \<and> i \<le> 3 \<and> 0 \<le> j \<and> j \<le> 2)"
  by (auto simp: coeff_set_def isininc_def)

text \<open>
  Claim C10. Let \<open>T\<close> be reached from the identity by a sequence of assignments through
  \<^verbatim>\<open>coeff\<close>, none of which threw. Then the entries \<^verbatim>\<open>t[0][3]\<close>, \<^verbatim>\<open>t[1][3]\<close>, \<^verbatim>\<open>t[2][3]\<close>,
  \<^verbatim>\<open>t[3][3]\<close> of \<open>T\<close> are still 0, 0, 0, 1; \<^verbatim>\<open>coeff\<close> rejects every access with second
  index 3, and every access with a first index outside 0..3 or a second index outside
  0..2; and for every point with three finite coordinates the weight that \<^verbatim>\<open>apply_to\<close>
  computes is exactly 1 and \<^verbatim>\<open>apply_to\<close> returns a point rather than \<open>NOT_AFFINE\<close>.
\<close>

theorem affine_fixed_column:
  assumes "coeff_writes identity ws = Inr T"
  shows "t T ! 0 ! 3 = 0 \<and> t T ! 1 ! 3 = 0 \<and> t T ! 2 ! 3 = 0 \<and> t T ! 3 ! 3 = 1
     \<and> (\<forall>i v. coeff_set T i 3 v = Inl INVALID_COEFFICIENT)
     \<and> (\<forall>i j v. \<not> (0 \<le> i \<and> i \<le> 3 \<and> 0 \<le> j \<and> j \<le> 2)
           \<longrightarrow> coeff_set T i j v = Inl INVALID_COEFFICIENT)
     \<and> (\<forall>a b c. weight T \<lparr>x = Fin a, y = Fin b, z = Fin c\<rparr> = 1
           \<and> (\<exists>q. apply_to T \<lparr>x = Fin a, y = Fin b, z = Fin c\<rparr> = Inr q))"
proof -
  have fc: "fixed_column T"
    using fixed_column_coeff_writes [OF fixed_column_identity assms] .
  then have "t T ! 0 ! 3 = 0 \<and> t T ! 1 ! 3 = 0 \<and> t T ! 2 ! 3 = 0 \<and> t T ! 3 ! 3 = 1"
    by (simp add: fixed_column_def)
  moreover have "\<forall>i v. coeff_set T i 3 v = Inl INVALID_COEFFICIENT"
    by (simp add: coeff_set_rejects)
  moreover have "\<forall>i j v. \<not> (0 \<le> i \<and> i \<le> 3 \<and> 0 \<le> j \<and> j \<le> 2)
      \<longrightarrow> coeff_set T i j v = Inl INVALID_COEFFICIENT"
    using coeff_set_rejects by blast
  moreover have "\<forall>a b c. weight T \<lparr>x = Fin a, y = Fin b, z = Fin c\<rparr> = 1
      \<and> (\<exists>q. apply_to T \<lparr>x = Fin a, y = Fin b, z = Fin c\<rparr> = Inr q)"
    using weight_fixed_column [OF fc] by (simp add: apply_to_def Let_def)
  ultimately show ?thesis by blast
qed

text \<open>
  The theorem at three assignments, one of them of \<open>NaN\<close>: the transform they reach,
  its weight at the point (1, 2, 3), and a rejected assignment with second index 3.
\<close>

theorem affine_fixed_column_witness:
  "coeff_writes identity [(3, 0, Fin 5), (0, 1, NaN), (2, 2, Fin 7)]
     = Inr \<lparr>t = [[1, NaN, 0, 0], [0, 1, 0, 0], [0, 0, Fin 7, 0], [Fin 5, 0, 0, 1]]\<rparr>
   \<and> weight \<lparr>t = [[1, NaN, 0, 0], [0, 1, 0, 0], [0, 0, Fin 7, 0], [Fin 5, 0, 0, 1]]\<rparr>
       \<lparr>x = Fin 1, y = Fin 2, z = Fin 3\<rparr> = 1
   \<and> coeff_set \<lparr>t = [[1, NaN, 0, 0], [0, 1, 0, 0], [0, 0, Fin 7, 0], [Fin 5, 0, 0, 1]]\<rparr> 0 3 (Fin 9)
       = Inl INVALID_COEFFICIENT"
proof -
  have h: "coeff_writes identity [(3, 0, Fin 5), (0, 1, NaN), (2, 2, Fin 7)]
     = Inr \<lparr>t = [[1, NaN, 0, 0], [0, 1, 0, 0], [0, 0, Fin 7, 0], [Fin 5, 0, 0, 1]]\<rparr>"
    by (simp add: coeff_set_def isininc_def identity_def)
  from affine_fixed_column [OF h] show ?thesis using h by blast
qed

section \<open>The test of the weight\<close>

text \<open>
  The member \<^verbatim>\<open>t\<close> is private and can only be changed through \<^verbatim>\<open>coeff\<close>, which
  leaves the entries \<^verbatim>\<open>t[0..3][3]\<close> as they are. So the weight of a point is 1 when its
  three coordinates are real numbers, and \<open>NaN\<close> when one of them is \<open>NaN\<close>: no other
  weight occurs, and the exact comparison \<^verbatim>\<open>w != 1.0\<close> of the code decides as a
  comparison with a tolerance does.
\<close>

lemma weight_cases:
  assumes "fixed_column T"
  shows "weight T v = (if finite_vec3 v then 1 else NaN)"
  using assms
  by (cases "x v"; cases "y v"; cases "z v")
    (simp_all add: fixed_column_def weight_def finite_vec3_def double_simps)

lemma within_tolerance_weight:
  assumes "fixed_column T"
  shows "within_tolerance (weight T v) \<longleftrightarrow> weight T v = 1"
  by (simp add: weight_cases [OF assms] double_simps)

text \<open>
  Claim C9. Let \<open>T\<close> be a transform that the code can hold: the identity of the
  constructor after any sequence of assignments through \<^verbatim>\<open>coeff\<close>, none of which threw.
  For every point \<open>p\<close>, coordinates that are \<open>NaN\<close> included, \<^verbatim>\<open>apply_to\<close> computes
  \<open>T \<cdot> [p; 1]\<close>; it fails with \<open>NOT_AFFINE\<close> if and only if the fourth component, the
  homogeneous weight, is not within \<open>10\<^sup>-\<^sup>1\<^sup>2\<close> of 1; and when the weight is within
  \<open>10\<^sup>-\<^sup>1\<^sup>2\<close> of 1 it returns the point of the first three components.
\<close>

theorem apply_to_tolerance:
  assumes "coeff_writes identity ws = Inr T"
  shows "apply_to T v =
       (if within_tolerance (homogeneous T v ! 3)
        then Inr \<lparr>x = homogeneous T v ! 0, y = homogeneous T v ! 1, z = homogeneous T v ! 2\<rparr>
        else Inl NOT_AFFINE)
     \<and> (apply_to T v = Inl NOT_AFFINE \<longleftrightarrow> \<not> within_tolerance (homogeneous T v ! 3))"
proof -
  have fc: "fixed_column T"
    using fixed_column_coeff_writes [OF fixed_column_identity assms] .
  have "within_tolerance (homogeneous T v ! 3) \<longleftrightarrow> homogeneous T v ! 3 = 1"
    using within_tolerance_weight [OF fc] by (simp add: homogeneous_nth)
  then show ?thesis
    by (simp add: apply_to_homogeneous)
qed

text \<open>
  The theorem at the transform that three assignments reach. The point (1, 2, 3) has
  the weight 1 and is mapped to (6, 4, 21); the point whose first coordinate is \<open>NaN\<close>
  has the weight \<open>NaN\<close> and is rejected.
\<close>

theorem apply_to_tolerance_witness:
  "coeff_writes identity [(3, 0, Fin 5), (0, 1, Fin 2), (2, 2, Fin 7)]
     = Inr \<lparr>t = [[1, Fin 2, 0, 0], [0, 1, 0, 0], [0, 0, Fin 7, 0], [Fin 5, 0, 0, 1]]\<rparr>
   \<and> apply_to \<lparr>t = [[1, Fin 2, 0, 0], [0, 1, 0, 0], [0, 0, Fin 7, 0], [Fin 5, 0, 0, 1]]\<rparr>
       \<lparr>x = Fin 1, y = Fin 2, z = Fin 3\<rparr> = Inr \<lparr>x = Fin 6, y = Fin 4, z = Fin 21\<rparr>
   \<and> within_tolerance
       (homogeneous \<lparr>t = [[1, Fin 2, 0, 0], [0, 1, 0, 0], [0, 0, Fin 7, 0], [Fin 5, 0, 0, 1]]\<rparr>
          \<lparr>x = Fin 1, y = Fin 2, z = Fin 3\<rparr> ! 3)
   \<and> apply_to \<lparr>t = [[1, Fin 2, 0, 0], [0, 1, 0, 0], [0, 0, Fin 7, 0], [Fin 5, 0, 0, 1]]\<rparr>
       \<lparr>x = NaN, y = Fin 2, z = Fin 3\<rparr> = Inl NOT_AFFINE
   \<and> \<not> within_tolerance
       (homogeneous \<lparr>t = [[1, Fin 2, 0, 0], [0, 1, 0, 0], [0, 0, Fin 7, 0], [Fin 5, 0, 0, 1]]\<rparr>
          \<lparr>x = NaN, y = Fin 2, z = Fin 3\<rparr> ! 3)"
proof -
  have h: "coeff_writes identity [(3, 0, Fin 5), (0, 1, Fin 2), (2, 2, Fin 7)]
     = Inr \<lparr>t = [[1, Fin 2, 0, 0], [0, 1, 0, 0], [0, 0, Fin 7, 0], [Fin 5, 0, 0, 1]]\<rparr>"
    by (simp add: coeff_set_def isininc_def identity_def)
  have w1: "homogeneous \<lparr>t = [[1, Fin 2, 0, 0], [0, 1, 0, 0], [0, 0, Fin 7, 0], [Fin 5, 0, 0, 1]]\<rparr>
          \<lparr>x = Fin 1, y = Fin 2, z = Fin 3\<rparr>
      = [Fin 6, Fin 4, Fin 21, Fin 1]"
    by (simp add: homogeneous_def upt_4 double_simps)
  have w2: "homogeneous \<lparr>t = [[1, Fin 2, 0, 0], [0, 1, 0, 0], [0, 0, Fin 7, 0], [Fin 5, 0, 0, 1]]\<rparr>
          \<lparr>x = NaN, y = Fin 2, z = Fin 3\<rparr>
      = [NaN, NaN, NaN, NaN]"
    by (simp add: homogeneous_def upt_4 double_simps)
  from apply_to_tolerance [OF h, of "\<lparr>x = Fin 1, y = Fin 2, z = Fin 3\<rparr>"]
    apply_to_tolerance [OF h, of "\<lparr>x = NaN, y = Fin 2, z = Fin 3\<rparr>"]
  show ?thesis
    using h by (simp add: w1 w2)
qed

section \<open>The COM aligner\<close>

lemma est_COM_fold:
  "fold (\<lambda>p (COM_sx, COM_sy, COM_sz).
           (Digest COM_sx (x (fst p)), Digest COM_sy (y (fst p)), Digest COM_sz (z (fst p))))
     ps (a, b, c)
   = (\<lparr>Current_Sum = Current_Sum a + sum_list (map (\<lambda>p. x (fst p)) ps)\<rparr>,
      \<lparr>Current_Sum = Current_Sum b + sum_list (map (\<lambda>p. y (fst p)) ps)\<rparr>,
      \<lparr>Current_Sum = Current_Sum c + sum_list (map (\<lambda>p. z (fst p)) ps)\<rparr>)"
  by (induction ps arbitrary: a b c) (simp_all add: Digest_def add.assoc)

lemma est_COM_sums:
  "est_COM pc =
     vec3_divide \<lparr>x = sum_list (map (\<lambda>p. x (fst p)) (points pc)),
                  y = sum_list (map (\<lambda>p. y (fst p)) (points pc)),
                  z = sum_list (map (\<lambda>p. z (fst p)) (points pc))\<rparr>
       (Fin (real (length (points pc))))"
  by (simp add: est_COM_def est_COM_fold Running_Sum_init_def)

lemma est_COM_finite:
  assumes "finite_cloud pc" and "points pc \<noteq> []"
  shows "est_COM pc = \<lparr>x = Fin (running_mean (xs_of pc)), y = Fin (running_mean (ys_of pc)),
                        z = Fin (running_mean (zs_of pc))\<rparr>"
proof -
  have fx: "list_all (\<lambda>p. x (fst p) \<noteq> NaN) (points pc)"
    and fy: "list_all (\<lambda>p. y (fst p) \<noteq> NaN) (points pc)"
    and fz: "list_all (\<lambda>p. z (fst p) \<noteq> NaN) (points pc)"
    using assms(1) by (simp_all add: finite_cloud_def finite_vec3_def list_all_iff)
  show ?thesis
    using assms(2)
    by (simp add: est_COM_sums sum_list_finite [OF fx] sum_list_finite [OF fy]
        sum_list_finite [OF fz] vec3_divide_def running_mean_def xs_of_def ys_of_def zs_of_def)
qed

lemma coeff_writes_translation:
  "coeff_writes identity [(3, 0, a), (3, 1, b), (3, 2, c)]
     = Inr \<lparr>t = [[1, 0, 0, 0], [0, 1, 0, 0], [0, 0, 1, 0], [a, b, c, 1]]\<rparr>"
  by (simp add: coeff_set_def isininc_def identity_def)

lemma AlignViaCOM_returns:
  "AlignViaCOM moving stationary =
     Inr (Some \<lparr>t = [[1, 0, 0, 0], [0, 1, 0, 0], [0, 0, 1, 0],
                      [x (est_COM stationary) - x (est_COM moving),
                       y (est_COM stationary) - y (est_COM moving),
                       z (est_COM stationary) - z (est_COM moving), 1]]\<rparr>)"
  unfolding AlignViaCOM_def Let_def coeff_writes_translation by (simp add: vec3_minus_def)

text \<open>
  Claim C4. For two clouds that are not empty and whose coordinates are real numbers,
  \<^verbatim>\<open>AlignViaCOM\<close> returns the transform whose entries \<^verbatim>\<open>t[0..2][0..2]\<close>, the linear block,
  are those of the identity matrix, whose entries \<^verbatim>\<open>t[3][0..2]\<close>, the translation, are
  the centroid of the stationary cloud minus the centroid of the moving cloud, and whose
  entries \<^verbatim>\<open>t[0..3][3]\<close> are 0, 0, 0, 1. Each centroid coordinate is the running sum of
  that coordinate in input order divided by the number of points.
\<close>

theorem AlignViaCOM_translation:
  assumes "points stationary \<noteq> []" and "points moving \<noteq> []"
    and "finite_cloud stationary" and "finite_cloud moving"
  shows "AlignViaCOM moving stationary =
     Inr (Some \<lparr>t = [[1, 0, 0, 0], [0, 1, 0, 0], [0, 0, 1, 0],
                      [Fin (running_mean (xs_of stationary) - running_mean (xs_of moving)),
                       Fin (running_mean (ys_of stationary) - running_mean (ys_of moving)),
                       Fin (running_mean (zs_of stationary) - running_mean (zs_of moving)), 1]]\<rparr>)"
  by (simp add: AlignViaCOM_returns est_COM_finite assms)

text \<open>
  The theorem at the first scenario of the specification: the stationary cloud
  (0,0,0), (2,0,0), (0,2,0), (0,0,2) and the moving cloud shifted by (5, -3, 7). The
  translation is (-5, 3, -7).
\<close>

theorem AlignViaCOM_translation_witness:
  "AlignViaCOM
     \<lparr>points = [(\<lparr>x = Fin 5, y = Fin (- 3), z = Fin 7\<rparr>, 0), (\<lparr>x = Fin 7, y = Fin (- 3), z = Fin 7\<rparr>, 0),
                (\<lparr>x = Fin 5, y = Fin (- 1), z = Fin 7\<rparr>, 0), (\<lparr>x = Fin 5, y = Fin (- 3), z = Fin 9\<rparr>, 0)]\<rparr>
     \<lparr>points = [(\<lparr>x = Fin 0, y = Fin 0, z = Fin 0\<rparr>, 0), (\<lparr>x = Fin 2, y = Fin 0, z = Fin 0\<rparr>, 0),
                (\<lparr>x = Fin 0, y = Fin 2, z = Fin 0\<rparr>, 0), (\<lparr>x = Fin 0, y = Fin 0, z = Fin 2\<rparr>, 0)]\<rparr>
   = Inr (Some \<lparr>t = [[1, 0, 0, 0], [0, 1, 0, 0], [0, 0, 1, 0], [Fin (- 5), Fin 3, Fin (- 7), 1]]\<rparr>)"
  using AlignViaCOM_translation
    [of "\<lparr>points = [(\<lparr>x = Fin 0, y = Fin 0, z = Fin 0\<rparr>, 0), (\<lparr>x = Fin 2, y = Fin 0, z = Fin 0\<rparr>, 0),
                (\<lparr>x = Fin 0, y = Fin 2, z = Fin 0\<rparr>, 0), (\<lparr>x = Fin 0, y = Fin 0, z = Fin 2\<rparr>, 0)]\<rparr>"
        "\<lparr>points = [(\<lparr>x = Fin 5, y = Fin (- 3), z = Fin 7\<rparr>, 0), (\<lparr>x = Fin 7, y = Fin (- 3), z = Fin 7\<rparr>, 0),
                (\<lparr>x = Fin 5, y = Fin (- 1), z = Fin 7\<rparr>, 0), (\<lparr>x = Fin 5, y = Fin (- 3), z = Fin 9\<rparr>, 0)]\<rparr>"]
  by (simp add: finite_cloud_def finite_vec3_def running_mean_def xs_of_def ys_of_def zs_of_def)

section \<open>The PCA aligner\<close>

lemma coeff_writes_twelve:
  "coeff_writes identity
     [(0, 0, a00), (0, 1, a10), (0, 2, a20), (1, 0, a01), (1, 1, a11), (1, 2, a21),
      (2, 0, a02), (2, 1, a12), (2, 2, a22), (3, 0, b0), (3, 1, b1), (3, 2, b2)]
   = Inr \<lparr>t = [[a00, a10, a20, 0], [a01, a11, a21, 0], [a02, a12, a22, 0], [b0, b1, b2, 1]]\<rparr>"
  by (simp add: coeff_set_def isininc_def identity_def)

lemma elem_Matrix3d_of_pcomps:
  assumes "r < 3" and "k < 3"
  shows "elem (Matrix3d_of_pcomps c) r k = coord (axis c k) r"
proof -
  from assms have "r = 0 \<or> r = 1 \<or> r = 2" and "k = 0 \<or> k = 1 \<or> k = 2"
    by auto
  then show ?thesis
    by (auto simp: Matrix3d_of_pcomps_def set_elem_def Zero_def coord_def axis_def)
qed

lemma dims_Matrix3d_of_pcomps:
  "rows (Matrix3d_of_pcomps c) = 3" "cols (Matrix3d_of_pcomps c) = 3"
  by (simp_all add: Matrix3d_of_pcomps_def set_elem_def Zero_def)

lemma mat_times_simps:
  "rows (mat_times A B) = rows A"
  "cols (mat_times A B) = cols B"
  "elem (mat_times A B) i j = sum_list (map (\<lambda>k. elem A i k * elem B k j) [0..<cols A])"
  by (simp_all add: mat_times_def)

lemma transpose_m_simps:
  "rows (transpose_m A) = cols A"
  "cols (transpose_m A) = rows A"
  "elem (transpose_m A) i j = elem A j i"
  by (simp_all add: transpose_m_def)

lemma Vector3d_simps:
  "rows (Vector3d a b c) = 3"
  "cols (Vector3d a b c) = 1"
  "elem (Vector3d a b c) 0 0 = a"
  "elem (Vector3d a b c) (Suc 0) 0 = b"
  "elem (Vector3d a b c) 2 0 = c"
  by (simp_all add: Vector3d_def set_elem_def Zero_def)

lemma elem_S_Mt:
  "r < 3 \<Longrightarrow> c < 3 \<Longrightarrow>
   elem (mat_times (Matrix3d_of_pcomps s) (transpose_m (Matrix3d_of_pcomps m))) r c = S_Mt s m r c"
  by (simp add: mat_times_simps transpose_m_simps dims_Matrix3d_of_pcomps S_Mt_def upt_3
      elem_Matrix3d_of_pcomps)

lemma elem_A_COM:
  assumes "r < 3"
  shows "elem (mat_times (mat_times (Matrix3d_of_pcomps s) (transpose_m (Matrix3d_of_pcomps m)))
           (Vector3d (x mu) (y mu) (z mu))) r 0
     = sum_list (map (\<lambda>c. S_Mt s m r c * coord mu c) [0..<3])"
proof -
  have "elem (mat_times (mat_times (Matrix3d_of_pcomps s) (transpose_m (Matrix3d_of_pcomps m)))
           (Vector3d (x mu) (y mu) (z mu))) r 0
     = sum_list (map (\<lambda>c. elem (mat_times (Matrix3d_of_pcomps s)
                                  (transpose_m (Matrix3d_of_pcomps m))) r c
                              * elem (Vector3d (x mu) (y mu) (z mu)) c 0) [0..<3])"
    by (simp add: mat_times_simps(3) [of "mat_times _ _"] mat_times_simps(2) transpose_m_simps
        dims_Matrix3d_of_pcomps)
  also have "\<dots> = sum_list (map (\<lambda>c. S_Mt s m r c * coord mu c) [0..<3])"
    using assms by (simp add: upt_3 elem_S_Mt Vector3d_simps coord_def)
  finally show ?thesis .
qed

text \<open>
  How \<^verbatim>\<open>AlignViaPCA\<close> assembles its result from the reoriented components of the two
  clouds, whatever these are: the entry in row \<open>r\<close> and column \<open>c\<close> of the product of
  \<^verbatim>\<open>S\<close> and the transpose of \<^verbatim>\<open>M\<close> is stored in \<^verbatim>\<open>t[c][r]\<close>, and \<^verbatim>\<open>t[3][r]\<close> is the
  component \<open>r\<close> of the centroid of the stationary cloud minus the product applied to
  the centroid of the moving cloud.
\<close>

lemma AlignViaPCA_assembly:
  "AlignViaPCA eigenvectors moving stationary =
     Inr (Some \<lparr>t =
       [[S_Mt (reoriented_pcomps eigenvectors stationary) (reoriented_pcomps eigenvectors moving) 0 0,
         S_Mt (reoriented_pcomps eigenvectors stationary) (reoriented_pcomps eigenvectors moving) 1 0,
         S_Mt (reoriented_pcomps eigenvectors stationary) (reoriented_pcomps eigenvectors moving) 2 0, 0],
        [S_Mt (reoriented_pcomps eigenvectors stationary) (reoriented_pcomps eigenvectors moving) 0 1,
         S_Mt (reoriented_pcomps eigenvectors stationary) (reoriented_pcomps eigenvectors moving) 1 1,
         S_Mt (reoriented_pcomps eigenvectors stationary) (reoriented_pcomps eigenvectors moving) 2 1, 0],
        [S_Mt (reoriented_pcomps eigenvectors stationary) (reoriented_pcomps eigenvectors moving) 0 2,
         S_Mt (reoriented_pcomps eigenvectors stationary) (reoriented_pcomps eigenvectors moving) 1 2,
         S_Mt (reoriented_pcomps eigenvectors stationary) (reoriented_pcomps eigenvectors moving) 2 2, 0],
        [PCA_shift (reoriented_pcomps eigenvectors stationary) (reoriented_pcomps eigenvectors moving)
           (est_COM stationary) (est_COM moving) 0,
         PCA_shift (reoriented_pcomps eigenvectors stationary) (reoriented_pcomps eigenvectors moving)
           (est_COM stationary) (est_COM moving) 1,
         PCA_shift (reoriented_pcomps eigenvectors stationary) (reoriented_pcomps eigenvectors moving)
           (est_COM stationary) (est_COM moving) 2, 1]]\<rparr>)"
  unfolding AlignViaPCA_def Let_def coeff_writes_twelve
  by (simp add: elem_S_Mt elem_A_COM PCA_shift_def reoriented_pcomps_def coord_def)

text \<open>
  A transform stored in that way maps a point with real coordinates to \<open>A \<cdot> p + b\<close>.
\<close>

lemma apply_to_linear_block:
  "apply_to \<lparr>t = [[a00, a10, a20, 0], [a01, a11, a21, 0], [a02, a12, a22, 0], [b0, b1, b2, 1]]\<rparr>
       \<lparr>x = Fin p, y = Fin q, z = Fin r\<rparr>
     = Inr \<lparr>x = Fin p * a00 + Fin q * a01 + Fin r * a02 + b0,
            y = Fin p * a10 + Fin q * a11 + Fin r * a12 + b1,
            z = Fin p * a20 + Fin q * a21 + Fin r * a22 + b2\<rparr>"
proof -
  have "weight \<lparr>t = [[a00, a10, a20, 0], [a01, a11, a21, 0], [a02, a12, a22, 0], [b0, b1, b2, 1]]\<rparr>
          \<lparr>x = Fin p, y = Fin q, z = Fin r\<rparr> = 1"
    by (simp add: weight_def double_simps)
  then show ?thesis
    by (simp add: apply_to_def)
qed

section \<open>Empty clouds\<close>

lemma AlignViaPCA_some:
  "\<exists>T. AlignViaPCA eigenvectors moving stationary = Inr (Some T)"
  unfolding AlignViaPCA_def Let_def coeff_writes_twelve by simp

text \<open>
  Claim C2, as amended. \<^verbatim>\<open>AlignViaCOM\<close> and \<^verbatim>\<open>AlignViaPCA\<close> have no test for an empty
  cloud: for every moving and every stationary cloud, empty or not, each of them
  returns a transform, and none of them fails.
\<close>

theorem aligners_always_return:
  "(\<exists>T. AlignViaCOM moving stationary = Inr (Some T))
   \<and> (\<exists>T. AlignViaPCA eigenvectors moving stationary = Inr (Some T))"
  by (simp add: AlignViaCOM_returns AlignViaPCA_some)

text \<open>
  Claim C2 as stated fails. With an empty moving cloud, and with an empty stationary
  cloud, \<^verbatim>\<open>AlignViaCOM\<close> returns a transform: the centroid of the empty cloud is the
  quotient \<^verbatim>\<open>0.0/0.0\<close>, and the three translation coefficients are \<open>NaN\<close>.
\<close>

theorem AlignViaCOM_empty_counterexample:
  "AlignViaCOM \<lparr>points = []\<rparr> \<lparr>points = [(\<lparr>x = Fin 1, y = Fin 2, z = Fin 3\<rparr>, 0)]\<rparr>
     = Inr (Some \<lparr>t = [[1, 0, 0, 0], [0, 1, 0, 0], [0, 0, 1, 0], [NaN, NaN, NaN, 1]]\<rparr>)
   \<and> AlignViaCOM \<lparr>points = [(\<lparr>x = Fin 1, y = Fin 2, z = Fin 3\<rparr>, 0)]\<rparr> \<lparr>points = []\<rparr>
     = Inr (Some \<lparr>t = [[1, 0, 0, 0], [0, 1, 0, 0], [0, 0, 1, 0], [NaN, NaN, NaN, 1]]\<rparr>)"
  by (simp add: AlignViaCOM_returns est_COM_sums vec3_divide_def double_simps)

section \<open>The orientation of the principal components\<close>

lemma reorient_fold:
  "fold (\<lambda>v (rs_pc1, rs_pc2, rs_pc3).
           let sv = vec3_minus (fst v) COM;
               proj_pc1 = Dot sv (pc1 comps);
               proj_pc2 = Dot sv (pc2 comps);
               proj_pc3 = Dot sv (pc3 comps)
           in (Digest rs_pc1 (pow_d proj_pc1 (Fin 3)),
               Digest rs_pc2 (pow_d proj_pc2 (Fin 3)),
               Digest rs_pc3 (pow_d proj_pc3 (Fin 3))))
     ps (a, b, c)
   = (\<lparr>Current_Sum = Current_Sum a + third_moment COM (pc1 comps) \<lparr>points = ps\<rparr>\<rparr>,
      \<lparr>Current_Sum = Current_Sum b + third_moment COM (pc2 comps) \<lparr>points = ps\<rparr>\<rparr>,
      \<lparr>Current_Sum = Current_Sum c + third_moment COM (pc3 comps) \<lparr>points = ps\<rparr>\<rparr>)"
  by (induction ps arbitrary: a b c) (simp_all add: Digest_def add.assoc third_moment_def Let_def)

lemma reorient_pcomps_moments:
  "reorient_pcomps COM comps pc =
     \<lparr>pc1 = unit (vec3_times (pc1 comps) (third_moment COM (pc1 comps) pc)),
      pc2 = unit (vec3_times (pc2 comps) (third_moment COM (pc2 comps) pc)),
      pc3 = unit (vec3_times (pc3 comps) (third_moment COM (pc3 comps) pc))\<rparr>"
  unfolding reorient_pcomps_def reorient_fold by (simp add: Running_Sum_init_def third_moment_def)

text \<open>
  For a unit vector \<open>e\<close> and a third moment \<open>m\<close> that is not zero the new axis is
  \<open>sgn m \<cdot> e\<close>; for \<open>m = 0\<close> the scaled vector is the zero vector and \<^verbatim>\<open>unit\<close> divides
  zero by zero in each component.
\<close>

lemma unit_scaled:
  assumes "e1\<^sup>2 + e2\<^sup>2 + e3\<^sup>2 = 1"
  shows "unit (vec3_times \<lparr>x = Fin e1, y = Fin e2, z = Fin e3\<rparr> (Fin m)) =
     (if m = 0 then nan3 else \<lparr>x = Fin (sgn m * e1), y = Fin (sgn m * e2), z = Fin (sgn m * e3)\<rparr>)"
proof -
  have "e1 * m * (e1 * m) + e2 * m * (e2 * m) + e3 * m * (e3 * m) = (e1\<^sup>2 + e2\<^sup>2 + e3\<^sup>2) * m\<^sup>2"
    by (simp add: power2_eq_square algebra_simps)
  then have e: "e1 * m * (e1 * m) + e2 * m * (e2 * m) + e3 * m * (e3 * m) = m\<^sup>2"
    by (simp add: assms)
  have q: "e * m / \<bar>m\<bar> = sgn m * e" if "m \<noteq> 0" for e
    using that by (simp add: sgn_real_def)
  show ?thesis
    by (simp add: unit_def vec3_times_def Let_def e nan3_def q)
qed

lemma unit_NaN_scale: "unit (vec3_times e NaN) = nan3"
  by (cases "x e"; cases "y e"; cases "z e") (simp_all add: unit_def vec3_times_def nan3_def)

lemma unit_zero_scale: "unit (vec3_times e (Fin 0)) = nan3"
  by (cases "x e"; cases "y e"; cases "z e") (simp_all add: unit_def vec3_times_def nan3_def)

lemma est_COM_symmetric_pair: "est_COM symmetric_pair = \<lparr>x = Fin 0, y = Fin 0, z = Fin 0\<rparr>"
  by (simp add: est_COM_def symmetric_pair_def Running_Sum_init_def Digest_def vec3_divide_def
      double_simps)

lemma third_moment_symmetric_pair:
  "third_moment \<lparr>x = Fin 0, y = Fin 0, z = Fin 0\<rparr> e symmetric_pair
     = (if x e = NaN \<or> y e = NaN \<or> z e = NaN then NaN else Fin 0)"
  by (cases "x e"; cases "y e"; cases "z e")
    (simp_all add: third_moment_def symmetric_pair_def Dot_def vec3_minus_def double_simps)

lemma reorient_axis_symmetric_pair:
  "unit (vec3_times e (third_moment \<lparr>x = Fin 0, y = Fin 0, z = Fin 0\<rparr> e symmetric_pair)) = nan3"
  by (simp add: third_moment_symmetric_pair unit_zero_scale unit_NaN_scale)

text \<open>
  Claim C3 at the cloud of the two points (1, 0, 0) and (-1, 0, 0), with its centroid,
  the origin, and the unit eigenvectors (0, 1, 0), (0, 0, 1), (1, 0, 0) of its
  covariance, in ascending order of the eigenvalues 0, 0, 2. The third moment along
  each of them is exactly 0, and \<^verbatim>\<open>reorient_pcomps\<close> returns three axes all of whose
  components are \<open>NaN\<close>: no axis is the eigenvector it was computed from.
\<close>

theorem reorient_pcomps_zero_moment:
  "third_moment \<lparr>x = Fin 0, y = Fin 0, z = Fin 0\<rparr> \<lparr>x = Fin 0, y = Fin 1, z = Fin 0\<rparr> symmetric_pair
     = Fin 0
   \<and> third_moment \<lparr>x = Fin 0, y = Fin 0, z = Fin 0\<rparr> \<lparr>x = Fin 0, y = Fin 0, z = Fin 1\<rparr> symmetric_pair
     = Fin 0
   \<and> third_moment \<lparr>x = Fin 0, y = Fin 0, z = Fin 0\<rparr> \<lparr>x = Fin 1, y = Fin 0, z = Fin 0\<rparr> symmetric_pair
     = Fin 0
   \<and> reorient_pcomps \<lparr>x = Fin 0, y = Fin 0, z = Fin 0\<rparr>
       \<lparr>pc1 = \<lparr>x = Fin 0, y = Fin 1, z = Fin 0\<rparr>,
        pc2 = \<lparr>x = Fin 0, y = Fin 0, z = Fin 1\<rparr>,
        pc3 = \<lparr>x = Fin 1, y = Fin 0, z = Fin 0\<rparr>\<rparr> symmetric_pair
     = \<lparr>pc1 = \<lparr>x = NaN, y = NaN, z = NaN\<rparr>,
        pc2 = \<lparr>x = NaN, y = NaN, z = NaN\<rparr>,
        pc3 = \<lparr>x = NaN, y = NaN, z = NaN\<rparr>\<rparr>"
  by (simp add: reorient_pcomps_moments third_moment_symmetric_pair unit_zero_scale nan3_def)

section \<open>The PCA aligner on a symmetric cloud\<close>

lemma est_PCA_covariance:
  "est_PCA eigenvectors pc =
     (let evecs = eigenvectors (covariance pc)
      in \<lparr>pc1 = unit \<lparr>x = elem evecs 0 0, y = elem evecs 1 0, z = elem evecs 2 0\<rparr>,
          pc2 = unit \<lparr>x = elem evecs 0 1, y = elem evecs 1 1, z = elem evecs 2 1\<rparr>,
          pc3 = unit \<lparr>x = elem evecs 0 2, y = elem evecs 1 2, z = elem evecs 2 2\<rparr>\<rparr>)"
  by (simp add: est_PCA_def covariance_def Let_def)

lemma upt_6: "[0..<6] = [0, 1, 2, 3, 4, 5]"
  by (simp add: upt_rec)

lemma covariance_octahedron:
  "covariance octahedron =
     \<lparr>rows = 3, cols = 3,
      elem = (\<lambda>i j. if i = j \<and> i < 3 then [Fin 2, Fin 8, Fin 18] ! i else Fin 0)\<rparr>"
proof -
  have "(if i = j \<and> i < 3 then [Fin 2, Fin 8, Fin 18] ! i else Fin 0)
      = elem (covariance octahedron) i j" for i j
    by (cases "i = 0"; cases "i = 1"; cases "i = 2"; cases "j = 0"; cases "j = 1"; cases "j = 2")
      (simp_all add: covariance_def octahedron_def Let_def upt_6 set_elem_def Zero_def
        rowwise_minus_def colwise_mean_def mat_times_def transpose_m_def msum_def col_def
        double_simps)
  then have "elem (covariance octahedron)
      = (\<lambda>i j. if i = j \<and> i < 3 then [Fin 2, Fin 8, Fin 18] ! i else Fin 0)"
    by (intro ext) simp
  moreover have "rows (covariance octahedron) = 3" and "cols (covariance octahedron) = 3"
    by (simp_all add: covariance_def octahedron_def Let_def rowwise_minus_def mat_times_def
        transpose_m_def Zero_def set_elem_def)
  ultimately show ?thesis
    by (cases "covariance octahedron") simp
qed

lemma est_COM_octahedron: "est_COM octahedron = \<lparr>x = Fin 0, y = Fin 0, z = Fin 0\<rparr>"
  by (simp add: est_COM_sums octahedron_def vec3_divide_def double_simps)

lemma third_moment_octahedron:
  "third_moment \<lparr>x = Fin 0, y = Fin 0, z = Fin 0\<rparr> e octahedron
     = (if x e = NaN \<or> y e = NaN \<or> z e = NaN then NaN else Fin 0)"
  by (cases "x e"; cases "y e"; cases "z e")
    (simp_all add: third_moment_def octahedron_def Dot_def vec3_minus_def double_simps
      power_mult_distrib)

lemma reorient_axis_octahedron:
  "unit (vec3_times e (third_moment \<lparr>x = Fin 0, y = Fin 0, z = Fin 0\<rparr> e octahedron)) = nan3"
  by (simp add: third_moment_octahedron unit_zero_scale unit_NaN_scale)

text \<open>
  Whatever the eigenvector routine returns for the covariance of the symmetric cloud,
  the third moment along each component is 0 or \<open>NaN\<close>, and all three reoriented
  components are \<open>NaN\<close>.
\<close>

lemma reoriented_pcomps_octahedron:
  "reoriented_pcomps eigenvectors octahedron = \<lparr>pc1 = nan3, pc2 = nan3, pc3 = nan3\<rparr>"
  by (simp add: reoriented_pcomps_def reorient_pcomps_moments est_COM_octahedron
      reorient_axis_octahedron)

lemma times_NaN: "a * NaN = NaN"
  by (cases a) simp_all

lemma S_Mt_nan:
  assumes "r < 3" and "c < 3"
  shows "S_Mt \<lparr>pc1 = nan3, pc2 = nan3, pc3 = nan3\<rparr> m r c = NaN"
    and "S_Mt s \<lparr>pc1 = nan3, pc2 = nan3, pc3 = nan3\<rparr> r c = NaN"
proof -
  from assms have "r = 0 \<or> r = 1 \<or> r = 2" and "c = 0 \<or> c = 1 \<or> c = 2"
    by auto
  then show "S_Mt \<lparr>pc1 = nan3, pc2 = nan3, pc3 = nan3\<rparr> m r c = NaN"
    and "S_Mt s \<lparr>pc1 = nan3, pc2 = nan3, pc3 = nan3\<rparr> r c = NaN"
    by (auto simp: S_Mt_def upt_3 axis_def coord_def nan3_def times_NaN)
qed

lemma PCA_shift_nan:
  assumes "r < 3"
  shows "PCA_shift \<lparr>pc1 = nan3, pc2 = nan3, pc3 = nan3\<rparr> m mu_x mu_y r = NaN"
    and "PCA_shift s \<lparr>pc1 = nan3, pc2 = nan3, pc3 = nan3\<rparr> mu_x mu_y r = NaN"
  using assms by (simp_all add: PCA_shift_def S_Mt_nan upt_3)

text \<open>
  Claim C5 at the cloud of the six points \<open>(\<plusminus>1, 0, 0)\<close>, \<open>(0, \<plusminus>2, 0)\<close>, \<open>(0, 0, \<plusminus>3)\<close>.
  The cloud meets the preconditions of the PCA aligner: it has six points, and the
  matrix \<^verbatim>\<open>cov\<close> that the code computes for it is the diagonal matrix with the entries
  2, 8 and 18, which has full rank; its unit eigenvectors are the coordinate axes. The
  centroid is the origin, and the third moment along each coordinate axis is exactly 0.
  For every eigenvector routine and every other cloud, \<^verbatim>\<open>AlignViaPCA\<close> with this
  cloud as the stationary or as the moving one returns the transform all of whose
  coefficients \<^verbatim>\<open>t[0..3][0..2]\<close> are \<open>NaN\<close>: its linear block is not a product of two
  matrices of orthonormal axes, and its translation is not a vector of real numbers.
\<close>

theorem AlignViaPCA_symmetric_cloud:
  "length (points octahedron) = 6
   \<and> covariance octahedron =
       \<lparr>rows = 3, cols = 3,
        elem = (\<lambda>i j. if i = j \<and> i < 3 then [Fin 2, Fin 8, Fin 18] ! i else Fin 0)\<rparr>
   \<and> est_COM octahedron = \<lparr>x = Fin 0, y = Fin 0, z = Fin 0\<rparr>
   \<and> third_moment (est_COM octahedron) \<lparr>x = Fin 1, y = Fin 0, z = Fin 0\<rparr> octahedron = Fin 0
   \<and> third_moment (est_COM octahedron) \<lparr>x = Fin 0, y = Fin 1, z = Fin 0\<rparr> octahedron = Fin 0
   \<and> third_moment (est_COM octahedron) \<lparr>x = Fin 0, y = Fin 0, z = Fin 1\<rparr> octahedron = Fin 0
   \<and> AlignViaPCA eigenvectors moving octahedron
     = Inr (Some \<lparr>t = [[NaN, NaN, NaN, 0], [NaN, NaN, NaN, 0], [NaN, NaN, NaN, 0],
                          [NaN, NaN, NaN, 1]]\<rparr>)
   \<and> AlignViaPCA eigenvectors octahedron stationary
     = Inr (Some \<lparr>t = [[NaN, NaN, NaN, 0], [NaN, NaN, NaN, 0], [NaN, NaN, NaN, 0],
                          [NaN, NaN, NaN, 1]]\<rparr>)"
proof -
  have "length (points octahedron) = 6"
    by (simp add: octahedron_def)
  moreover have "third_moment (est_COM octahedron) \<lparr>x = Fin 1, y = Fin 0, z = Fin 0\<rparr> octahedron
      = Fin 0"
    and "third_moment (est_COM octahedron) \<lparr>x = Fin 0, y = Fin 1, z = Fin 0\<rparr> octahedron = Fin 0"
    and "third_moment (est_COM octahedron) \<lparr>x = Fin 0, y = Fin 0, z = Fin 1\<rparr> octahedron = Fin 0"
    by (simp_all add: est_COM_octahedron third_moment_octahedron)
  moreover have "AlignViaPCA eigenvectors moving octahedron
     = Inr (Some \<lparr>t = [[NaN, NaN, NaN, 0], [NaN, NaN, NaN, 0], [NaN, NaN, NaN, 0],
                          [NaN, NaN, NaN, 1]]\<rparr>)"
    by (simp add: AlignViaPCA_assembly reoriented_pcomps_octahedron S_Mt_nan PCA_shift_nan)
  moreover have "AlignViaPCA eigenvectors octahedron stationary
     = Inr (Some \<lparr>t = [[NaN, NaN, NaN, 0], [NaN, NaN, NaN, 0], [NaN, NaN, NaN, 0],
                          [NaN, NaN, NaN, 1]]\<rparr>)"
    by (simp add: AlignViaPCA_assembly reoriented_pcomps_octahedron S_Mt_nan PCA_shift_nan)
  ultimately show ?thesis
    using covariance_octahedron est_COM_octahedron by simp
qed

section \<open>The method of the operation\<close>

lemma regex_match_com: "regex_match s regex_com \<longleftrightarrow> map tolower s \<in> com_spellings"
  by (auto simp: regex_com_def com_spellings_def split: list.splits)

lemma regex_match_pca: "regex_match s regex_pca \<longleftrightarrow> map tolower s \<in> pca_spellings"
  by (auto simp: regex_pca_def pca_spellings_def split: list.splits)

lemma spellings_disjoint: "s \<in> com_spellings \<Longrightarrow> s \<notin> pca_spellings"
  by (auto simp: com_spellings_def pca_spellings_def)

lemma align_loop_com:
  "regex_match s regex_com \<Longrightarrow> align_loop eig s ref ps D = align_all AlignViaCOM ref ps D"
  by (induction ps arbitrary: D) (simp_all split: sum.splits option.splits)

lemma align_loop_pca:
  assumes "regex_match s regex_pca"
  shows "align_loop eig s ref ps D = align_all (AlignViaPCA eig) ref ps D"
proof -
  have nc: "\<not> regex_match s regex_com"
    using assms spellings_disjoint by (auto simp: regex_match_com regex_match_pca)
  show ?thesis
    by (induction ps arbitrary: D) (simp_all add: nc assms split: sum.splits option.splits)
qed

lemma apply_to_points_error: "apply_to_points T ps = Inl e \<Longrightarrow> e = NOT_AFFINE"
  by (induction ps arbitrary: e) (auto simp: apply_to_def Let_def split: sum.splits if_splits)

lemma apply_to_cloud_error: "apply_to_cloud T pc = Inl e \<Longrightarrow> e = NOT_AFFINE"
  by (auto simp: apply_to_cloud_def split: sum.splits dest: apply_to_points_error)

lemma align_all_error:
  assumes "\<And>a b. aligner a b \<noteq> Inl METHOD_UNKNOWN"
  shows "align_all aligner ref ps D \<noteq> Inl METHOD_UNKNOWN"
proof (induction ps arbitrary: D)
  case Nil
  show ?case by simp
next
  case (Cons p ps)
  show ?case
    using assms Cons.IH
    by (auto split: sum.splits option.splits dest: apply_to_cloud_error)
qed

lemma align_loop_unknown:
  "\<not> regex_match s regex_com \<Longrightarrow> \<not> regex_match s regex_pca \<Longrightarrow> ps \<noteq> [] \<Longrightarrow>
     align_loop eig s ref ps D = Inl METHOD_UNKNOWN"
  by (cases ps) simp_all

lemma align_loop_cases:
  assumes "ps \<noteq> []"
  shows "align_loop eig s ref ps D =
     (if map tolower s \<in> com_spellings then align_all AlignViaCOM ref ps D
      else if map tolower s \<in> pca_spellings then align_all (AlignViaPCA eig) ref ps D
      else Inl METHOD_UNKNOWN)"
  using assms align_loop_com [of s eig ref ps D] align_loop_pca [of s eig ref ps D]
    align_loop_unknown [of s ps eig ref D]
  by (simp add: regex_match_com regex_match_pca)

text \<open>
  Claim C8, as amended. The operation recognises exactly two methods. A method string
  matches the expression for COM if and only if, with capital letters read as small
  ones, it is one of \<open>c\<close>, \<open>co\<close>, \<open>cm\<close>, \<open>com\<close>, and the expression for PCA if and
  only if it is one of \<open>p\<close>, \<open>pc\<close>, \<open>pa\<close>, \<open>pca\<close>. When the reference selection names
  exactly one cloud and the moving selection at least one, the operation aligns every
  moving cloud with \<^verbatim>\<open>AlignViaCOM\<close> in the first case and with \<^verbatim>\<open>AlignViaPCA\<close> in the
  second, and for every other method string, \<open>cpd\<close> included, it fails with
  \<open>METHOD_UNKNOWN\<close>; it fails with \<open>METHOD_UNKNOWN\<close> for no other method string.
\<close>

theorem AlignPoints_method:
  assumes "length (Whitelist (All_PCs D) ref_sel) = 1"
    and "Whitelist (All_PCs D) moving_sel \<noteq> []"
  shows "(regex_match s regex_com \<longleftrightarrow> map tolower s \<in> com_spellings)
     \<and> (regex_match s regex_pca \<longleftrightarrow> map tolower s \<in> pca_spellings)
     \<and> AlignPoints eig Whitelist D moving_sel ref_sel s =
         (if map tolower s \<in> com_spellings
          then align_all AlignViaCOM (hd (Whitelist (All_PCs D) ref_sel))
                 (Whitelist (All_PCs D) moving_sel) D
          else if map tolower s \<in> pca_spellings
          then align_all (AlignViaPCA eig) (hd (Whitelist (All_PCs D) ref_sel))
                 (Whitelist (All_PCs D) moving_sel) D
          else Inl METHOD_UNKNOWN)
     \<and> (AlignPoints eig Whitelist D moving_sel ref_sel s = Inl METHOD_UNKNOWN
          \<longleftrightarrow> map tolower s \<notin> com_spellings \<union> pca_spellings)"
proof -
  have c: "AlignPoints eig Whitelist D moving_sel ref_sel s =
         (if map tolower s \<in> com_spellings
          then align_all AlignViaCOM (hd (Whitelist (All_PCs D) ref_sel))
                 (Whitelist (All_PCs D) moving_sel) D
          else if map tolower s \<in> pca_spellings
          then align_all (AlignViaPCA eig) (hd (Whitelist (All_PCs D) ref_sel))
                 (Whitelist (All_PCs D) moving_sel) D
          else Inl METHOD_UNKNOWN)"
    using assms by (simp add: AlignPoints_def Let_def align_loop_cases)
  have com: "align_all AlignViaCOM r ps E \<noteq> Inl METHOD_UNKNOWN" for r ps E
    by (rule align_all_error) (simp add: AlignViaCOM_returns)
  have "AlignViaPCA eig a b \<noteq> Inl METHOD_UNKNOWN" for a b
    using AlignViaPCA_some [of eig a b] by auto
  then have pca: "align_all (AlignViaPCA eig) r ps E \<noteq> Inl METHOD_UNKNOWN" for r ps E
    by (rule align_all_error)
  have "AlignPoints eig Whitelist D moving_sel ref_sel s = Inl METHOD_UNKNOWN
          \<longleftrightarrow> map tolower s \<notin> com_spellings \<union> pca_spellings"
    unfolding c using com pca by simp
  with c show ?thesis
    by (simp add: regex_match_com regex_match_pca)
qed

text \<open>
  The theorem at a container of one cloud, selected both as the reference and as the
  moving cloud: the method \<open>Co\<close> aligns the cloud with itself and leaves it as it is,
  the method \<open>icp\<close> fails.
\<close>

theorem AlignPoints_method_witness:
  "AlignPoints (\<lambda>A. A) (\<lambda>all sel. all) one_cloud ''last'' ''last'' ''Co'' = Inr one_cloud
   \<and> AlignPoints (\<lambda>A. A) (\<lambda>all sel. all) one_cloud ''last'' ''last'' ''icp'' = Inl METHOD_UNKNOWN"
  using AlignPoints_method [of "\<lambda>all sel. all" one_cloud "''last''" "''last''" "''Co''" "\<lambda>A. A"]
    AlignPoints_method [of "\<lambda>all sel. all" one_cloud "''last''" "''last''" "''icp''" "\<lambda>A. A"]
  by (simp add: All_PCs_def one_cloud_def com_spellings_def pca_spellings_def
      AlignViaCOM_returns est_COM_sums vec3_divide_def apply_to_cloud_def apply_to_def weight_def double_simps)

text \<open>
  Claim C8 as stated fails. The method \<open>cpd\<close> is not dispatched to an aligner: the
  operation fails with \<open>METHOD_UNKNOWN\<close>. And a method string that matches no method
  does not make the operation fail when the moving selection is empty: the test is
  inside the loop over the moving clouds.
\<close>

theorem AlignPoints_cpd_counterexample:
  "AlignPoints (\<lambda>A. A) (\<lambda>all sel. all) one_cloud ''last'' ''last'' ''cpd'' = Inl METHOD_UNKNOWN
   \<and> AlignPoints (\<lambda>A. A) (\<lambda>all sel. if sel = ''last'' then all else []) one_cloud ''none'' ''last'' ''icp''
       = Inr one_cloud"
  by (simp add: AlignPoints_def All_PCs_def one_cloud_def regex_com_def regex_pca_def)

section \<open>Matrices of real numbers\<close>

lemma sum_list_Fin: "sum_list (map (\<lambda>i. Fin (f i)) xs) = Fin (sum_list (map f xs))"
  by (induction xs) (simp_all add: zero_double_def)

lemma real_matrix_simps:
  "rows (real_matrix r c f) = r"
  "cols (real_matrix r c f) = c"
  "elem (real_matrix r c f) i j = Fin (f i j)"
  by (simp_all add: real_matrix_def)

lemma int32_nat:
  assumes "n < 2 ^ 31"
  shows "int32 (int n) = int n"
proof -
  have "- (2 ^ 31) \<le> (0 :: int)"
    by simp
  also have "0 \<le> int n"
    by simp
  finally have lo: "- (2 ^ 31) \<le> int n" .
  have hi: "int n < 2 ^ 31"
    using assms by simp
  show ?thesis
    unfolding int32_def using lo hi by (rule signed_take_bit_int_eq_self)
qed

lemma size_t_of_int_nat: "n < 2 ^ 31 \<Longrightarrow> size_t_of_int (int n) = n"
  by (simp add: size_t_of_int_def)

lemma sdiv_nat: "int a sdiv int b = int (a div b)"
  by (simp add: signed_divide_int_def sgn_if zdiv_int)

section \<open>The initial variance\<close>

lemma fold_plus_double:
  "fold (\<lambda>j (acc :: double). acc + g j) js a = a + sum_list (map g js)"
  by (induction js arbitrary: a) (simp_all add: add.assoc)

lemma squaredNorm_row_diff:
  "squaredNorm (mat_minus (transpose_m (row (real_matrix N D xr) i))
                  (transpose_m (row (real_matrix M D' yr) j)))
     = Fin (sq_diff D xr yr i j)"
  by (simp add: squaredNorm_def mat_minus_def transpose_m_def row_def real_matrix_def sum_list_Fin
      sq_diff_def power2_eq_square)

lemma Init_Sigma_Squared_sum:
  assumes "N < 2 ^ 31" and "M < 2 ^ 31" and "D < 2 ^ 31"
  shows "Init_Sigma_Squared (real_matrix N D xr) (real_matrix M D' yr) =
     1 / double_of_int (int32 (int32 (int N * int M) * int D))
       * Fin (sum_list (map (\<lambda>n. sum_list (map (\<lambda>m. sq_diff D xr yr n m) [0..<M])) [0..<N]))"
  unfolding Init_Sigma_Squared_def Let_def squaredNorm_row_diff fold_plus_double
  by (simp add: real_matrix_simps int32_nat [OF assms(1)] int32_nat [OF assms(2)]
      int32_nat [OF assms(3)] sum_list_Fin zero_double_def)

text \<open>
  As long as the product \<open>N \<cdot> M \<cdot> D\<close> fits in an \<^verbatim>\<open>int\<close> the function returns the
  initial variance of the specification.
\<close>

lemma Init_Sigma_Squared_no_overflow:
  assumes "0 < N" and "0 < M" and "0 < D" and "N * M * D < 2 ^ 31"
  shows "Init_Sigma_Squared (real_matrix N D xr) (real_matrix M D' yr) =
     Fin (sigma_squared_spec N M D xr yr)"
proof -
  have le: "N \<le> N * M * D" "M \<le> N * M * D" "D \<le> N * M * D" "N * M \<le> N * M * D"
    using assms(1-3) by simp_all
  then have b: "N < 2 ^ 31" "M < 2 ^ 31" "D < 2 ^ 31" "N * M < 2 ^ 31"
    using assms(4) by linarith+
  have p1: "int32 (int N * int M) = int (N * M)"
    using int32_nat [OF b(4)] by simp
  have p2: "int32 (int (N * M) * int D) = int (N * M * D)"
    using int32_nat [OF assms(4)] by simp
  have nz: "real N * real M * real D \<noteq> 0"
    using assms(1-3) by simp
  show ?thesis
    unfolding Init_Sigma_Squared_sum [OF b(1-3)] p1 p2
    using nz by (simp add: double_of_int_def one_double_def sigma_squared_spec_def)
qed

lemma sq_diff_example:
  "sq_diff 3 (\<lambda>i k. if k = 0 then 1 else 0) (\<lambda>i k. 0) n m = 1"
  by (simp add: sq_diff_def upt_3)

text \<open>
  Claim C6 at two sets of 32768 points, every \<open>x\<^sub>n\<close> being (1, 0, 0) and every \<open>y\<^sub>m\<close> the
  origin. The sum of the squared distances is \<open>2\<^sup>3\<^sup>0\<close> and the claimed initial variance
  is 1/3. The \<^verbatim>\<open>int\<close> product \<open>32768 \<cdot> 32768 \<cdot> 3\<close> is \<open>2\<^sup>3\<^sup>1 + 2\<^sup>3\<^sup>0\<close> and wraps to \<open>- 2\<^sup>3\<^sup>0\<close>:
  the function returns \<open>- 1\<close>.
\<close>

theorem Init_Sigma_Squared_overflow:
  "Init_Sigma_Squared (real_matrix 32768 3 (\<lambda>i k. if k = 0 then 1 else 0))
       (real_matrix 32768 3 (\<lambda>i k. 0))
     = Fin (- 1)
   \<and> sigma_squared_spec 32768 32768 3 (\<lambda>i k. if k = 0 then 1 else 0) (\<lambda>i k. 0) = 1 / 3"
proof -
  have "Init_Sigma_Squared (real_matrix 32768 3 (\<lambda>i k. if k = 0 then 1 else 0))
          (real_matrix 32768 3 (\<lambda>i k. 0))
     = 1 / double_of_int (int32 (int32 (int 32768 * int 32768) * int 3))
       * Fin (sum_list (map (\<lambda>n. sum_list (map (\<lambda>m.
               sq_diff 3 (\<lambda>i k. if k = 0 then 1 else 0) (\<lambda>i k. 0) n m) [0..<32768])) [0..<32768]))"
    by (rule Init_Sigma_Squared_sum) simp_all
  then show ?thesis
    by (simp add: sq_diff_example sum_list_triv int32_def double_of_int_def one_double_def
        sigma_squared_spec_def)
qed

section \<open>The posterior matrix\<close>

lemma set_elem_simps:
  "rows (set_elem A i j v) = rows A"
  "cols (set_elem A i j v) = cols A"
  "elem (set_elem A i j v) i' j' = (if i' = i \<and> j' = j then v else elem A i' j')"
  by (simp_all add: set_elem_def)

lemma fill_row:
  "rows (fold (\<lambda>n A. set_elem A m n (f n)) ns A0) = rows A0"
  "cols (fold (\<lambda>n A. set_elem A m n (f n)) ns A0) = cols A0"
  "elem (fold (\<lambda>n A. set_elem A m n (f n)) ns A0) i j =
     (if i = m \<and> j \<in> set ns then f j else elem A0 i j)"
  by (induction ns arbitrary: A0) (auto simp: set_elem_simps)

lemma fill:
  "rows (fold (\<lambda>m. fold (\<lambda>n A. set_elem A m n (f m n)) ns) ms A0) = rows A0"
  "cols (fold (\<lambda>m. fold (\<lambda>n A. set_elem A m n (f m n)) ns) ms A0) = cols A0"
  "elem (fold (\<lambda>m. fold (\<lambda>n A. set_elem A m n (f m n)) ns) ms A0) i j =
     (if i \<in> set ms \<and> j \<in> set ns then f i j else elem A0 i j)"
  by (induction ms arbitrary: A0) (auto simp: fill_row)

lemma squaredNorm_tempVector:
  "squaredNorm
     (mat_minus (transpose_m (row (real_matrix N dx xr) n))
        (mat_plus (mat_times (real_matrix r1 dr rr) (transpose_m (row (real_matrix M dy yr) m)))
           (real_matrix t1 t2 tr)))
   = Fin (sq_dist dx dr xr yr rr tr n m)"
  by (simp add: squaredNorm_def mat_minus_def mat_plus_def mat_times_def transpose_m_def row_def
      real_matrix_def sum_list_Fin sq_dist_def power2_eq_square)

lemma expArg:
  "s \<noteq> 0 \<Longrightarrow> - 1 / (2 * Fin s) * Fin (sq_dist dx dr xr yr rr tr n m)
     = Fin (exp_arg dx dr xr yr rr tr s m n)"
  by (simp add: double_simps exp_arg_def)

lemma pow_d_nat: "pow_d (Fin a) (double_of_int (int k)) = Fin (a ^ k)"
  by (simp add: double_of_int_def)

lemma sdiv_two: "int a sdiv 2 = int (a div 2)"
  using sdiv_nat [of a 2] by simp

lemma sum_list_upt_if:
  "sum_list (map (\<lambda>i. if i < M then f i else g i) [0..<M]) = sum_list (map f [0..<(M::nat)])"
  by (rule arg_cong [where f = sum_list]) simp

text \<open>
  The entry that the code computes, in the arithmetic of \<^verbatim>\<open>double\<close>: the constant has
  the exponent \<open>D div 2\<close> and the factor \<open>M div N\<close>, and the quotient is \<open>NaN\<close> when the
  denominator is 0.
\<close>

lemma E_Step_elem:
  assumes "M < 2 ^ 31" and "N < 2 ^ 31" and "dy < 2 ^ 31"
    and "0 < s" and "w < 1" and "m < M" and "n < N"
  shows "elem (E_Step (real_matrix N dx xr) (real_matrix M dy yr) (real_matrix r1 dr rr)
                 (real_matrix t1 t2 tr) (Fin s) (Fin w) scale) m n
    = exp_d (Fin (exp_arg dx dr xr yr rr tr s m n))
        / (sum_list (map (\<lambda>m'. exp_d (Fin (exp_arg dx dr xr yr rr tr s m' n))) [0..<M])
            + Fin ((2 * pi * s) ^ (dy div 2) * (w / (1 - w)) * real (M div N)))"
proof -
  have s0: "s \<noteq> 0" using assms(4) by simp
  have w1: "1 - w \<noteq> 0" using assms(5) by simp
  show ?thesis
    using assms(6,7) w1
    unfolding E_Step_def Let_def squaredNorm_tempVector expArg [OF s0]
    by (simp add: fill real_matrix_simps
        int32_nat [OF assms(1)] int32_nat [OF assms(2)] int32_nat [OF assms(3)]
        size_t_of_int_nat [OF assms(1)] size_t_of_int_nat [OF assms(2)] sdiv_nat sdiv_two
        pow_d_nat msum_def col_def Zero_def M_PI_def numeral_double one_double_def
        sum_list_upt_if double_of_int_def)
qed


subsection \<open>The entries of a column\<close>



lemma exp_double_zero: "exp_double 0 = 1"
  by (simp add: exp_double_def)






lemma exp_arg_origin:
  "exp_arg 3 3 (\<lambda>i j. 0) (\<lambda>i j. 0) (\<lambda>i j. if i = j then 1 else 0) (\<lambda>i j. 0) 1 m n = 0"
  by (simp add: exp_arg_def sq_dist_def upt_3)

lemma gauss_origin:
  "gauss 3 3 (\<lambda>i j. 0) (\<lambda>i j. 0) (\<lambda>i j. if i = j then 1 else 0) (\<lambda>i j. 0) 1 m n = 1"
  by (simp add: gauss_def exp_arg_origin)


subsection \<open>A column whose denominator is 0\<close>



subsection \<open>The constant of the denominator\<close>

lemma powr_three_halves: "2 * pi < (2 * pi) powr (3 / 2)"
proof -
  have "1 < 2 * pi"
    using pi_ge_two by linarith
  then have "(2 * pi) powr 1 < (2 * pi) powr (3 / 2)"
    by (intro powr_less_mono) simp_all
  then show ?thesis
    using pi_gt_zero by simp
qed

lemma one_over_mono: "0 \<le> a \<Longrightarrow> a < b \<Longrightarrow> 1 / (1 + b) < 1 / (1 + (a :: real))"
  by (rule divide_strict_left_mono) (simp_all add: add_nonneg_pos)

text \<open>
  Claim C1 at two inputs, both with every point at the origin, the identity rotation,
  no translation, \<open>\<sigma>\<^sup>2 = 1\<close> and \<open>w = 1/2\<close>. With \<open>N = 2\<close> and \<open>M = 1\<close> the \<^verbatim>\<open>int\<close> quotient
  \<^verbatim>\<open>mRowsY / nRowsX\<close> is 0, the constant vanishes and the entry is 1, where the formula
  of the claim gives less than 1. With \<open>N = M = 1\<close> the \<^verbatim>\<open>int\<close> quotient
  \<^verbatim>\<open>dimensionality/2\<close> is 1, the constant is \<open>2 \<pi>\<close> and the entry is \<open>1 / (1 + 2 \<pi>)\<close>,
  where the formula of the claim, with the exponent 3/2, gives less.
\<close>

theorem E_Step_truncated_constant:
  "elem (E_Step (real_matrix 2 3 (\<lambda>i j. 0)) (real_matrix 1 3 (\<lambda>i j. 0))
           (real_matrix 3 3 (\<lambda>i j. if i = j then 1 else 0)) (real_matrix 3 1 (\<lambda>i j. 0))
           (Fin 1) (Fin (1 / 2)) 1) 0 0 = Fin 1
   \<and> posterior_spec 2 1 (\<lambda>i j. 0) (\<lambda>i j. 0) (\<lambda>i j. if i = j then 1 else 0) (\<lambda>i j. 0)
       1 (1 / 2) 0 0 < 1
   \<and> elem (E_Step (real_matrix 1 3 (\<lambda>i j. 0)) (real_matrix 1 3 (\<lambda>i j. 0))
           (real_matrix 3 3 (\<lambda>i j. if i = j then 1 else 0)) (real_matrix 3 1 (\<lambda>i j. 0))
           (Fin 1) (Fin (1 / 2)) 1) 0 0 = Fin (1 / (1 + 2 * pi))
   \<and> posterior_spec 1 1 (\<lambda>i j. 0) (\<lambda>i j. 0) (\<lambda>i j. if i = j then 1 else 0) (\<lambda>i j. 0)
       1 (1 / 2) 0 0 < 1 / (1 + 2 * pi)"
proof -
  have pos: "1 + 2 * pi \<noteq> 0"
    using pi_gt_zero by linarith
  have a: "elem (E_Step (real_matrix 2 3 (\<lambda>i j. 0)) (real_matrix 1 3 (\<lambda>i j. 0))
           (real_matrix 3 3 (\<lambda>i j. if i = j then 1 else 0)) (real_matrix 3 1 (\<lambda>i j. 0))
           (Fin 1) (Fin (1 / 2)) 1) 0 0 = Fin 1"
    by (subst E_Step_elem) (simp_all add: exp_arg_origin exp_double_zero zero_double_def)
  have b: "elem (E_Step (real_matrix 1 3 (\<lambda>i j. 0)) (real_matrix 1 3 (\<lambda>i j. 0))
           (real_matrix 3 3 (\<lambda>i j. if i = j then 1 else 0)) (real_matrix 3 1 (\<lambda>i j. 0))
           (Fin 1) (Fin (1 / 2)) 1) 0 0 = Fin (1 / (1 + 2 * pi))"
    using pos by (subst E_Step_elem) (simp_all add: exp_arg_origin exp_double_zero zero_double_def)
  have p: "0 < (2 * pi) powr (3 / 2)"
    using pi_gt_zero by simp
  have c: "posterior_spec 2 1 (\<lambda>i j. 0) (\<lambda>i j. 0) (\<lambda>i j. if i = j then 1 else 0) (\<lambda>i j. 0)
       1 (1 / 2) 0 0 < 1"
  proof -
    have "1 / (1 + (2 * pi) powr (3 / 2) / 2) < 1 / (1 + 0)"
      by (rule one_over_mono) (use p in simp_all)
    then show ?thesis
      by (simp add: posterior_spec_def posterior_const_def gauss_origin)
  qed
  have d: "posterior_spec 1 1 (\<lambda>i j. 0) (\<lambda>i j. 0) (\<lambda>i j. if i = j then 1 else 0) (\<lambda>i j. 0)
       1 (1 / 2) 0 0 < 1 / (1 + 2 * pi)"
  proof -
    have "1 / (1 + (2 * pi) powr (3 / 2)) < 1 / (1 + 2 * pi)"
      by (rule one_over_mono) (use powr_three_halves pi_gt_zero in simp_all)
    then show ?thesis
      by (simp add: posterior_spec_def posterior_const_def gauss_origin)
  qed
  from a b c d show ?thesis by blast
qed

end
